theory Spec2Isabelle
  imports Main "HOL-Library.Sublist"
begin

section \<open>Python strings\<close>

text \<open>
  Strings are modelled as ASCII text (\<^typ>\<open>string\<close>). The functions of this section are
  the string operations of Python that \<^verbatim>\<open>app.py\<close> calls.
\<close>

text \<open>\<^verbatim>\<open>needle in hay\<close> on two strings.\<close>

fun str_in :: "string \<Rightarrow> string \<Rightarrow> bool" where
  "str_in needle [] = (needle = [])"
| "str_in needle (c # cs) = (prefix needle (c # cs) \<or> str_in needle cs)"

text \<open>\<^verbatim>\<open>s.lower()\<close>, on ASCII letters.\<close>

definition lower_char :: "char \<Rightarrow> char" where
  "lower_char c =
     (case map_of (zip ''ABCDEFGHIJKLMNOPQRSTUVWXYZ'' ''abcdefghijklmnopqrstuvwxyz'') c of
        Some d \<Rightarrow> d
      | None \<Rightarrow> c)"

definition lower :: "string \<Rightarrow> string" where
  "lower s = map lower_char s"

text \<open>\<^verbatim>\<open>s.split(c)\<close> for a one-character separator: never empty, \<^verbatim>\<open>''.split('/') == ['']\<close>.\<close>

fun split_on :: "char \<Rightarrow> string \<Rightarrow> string list" where
  "split_on sep [] = [[]]"
| "split_on sep (c # cs) =
     (if c = sep then [] # split_on sep cs
      else (case split_on sep cs of
              [] \<Rightarrow> [[c]]
            | w # ws \<Rightarrow> (c # w) # ws))"

text \<open>
  The characters that \<^verbatim>\<open>int()\<close> skips as white space around a literal: space, tab,
  line feed, vertical tab, form feed and carriage return.
\<close>

definition is_space :: "char \<Rightarrow> bool" where
  "is_space c = (c \<in> set [CHR '' '', CHR 0x09, CHR 0x0A, CHR 0x0B, CHR 0x0C, CHR 0x0D])"

definition strip_by :: "(char \<Rightarrow> bool) \<Rightarrow> string \<Rightarrow> string" where
  "strip_by sp s = rev (dropWhile sp (rev (dropWhile sp s)))"

text \<open>
  \<^verbatim>\<open>s.strip()\<close> also removes the four ASCII separator characters \<^verbatim>\<open>0x1C\<close> to
  \<^verbatim>\<open>0x1F\<close>, which \<^verbatim>\<open>str.isspace\<close> accepts.
\<close>

definition is_str_space :: "char \<Rightarrow> bool" where
  "is_str_space c = (is_space c \<or> c \<in> set [CHR 0x1C, CHR 0x1D, CHR 0x1E, CHR 0x1F])"

definition strip :: "string \<Rightarrow> string" where
  "strip s = strip_by is_str_space s"

definition digit_val :: "char \<Rightarrow> nat option" where
  "digit_val c = map_of (zip ''0123456789'' [0, 1, 2, 3, 4, 5, 6, 7, 8, 9]) c"

text \<open>
  The digits of a base-10 literal read by \<^verbatim>\<open>int()\<close>: a single underscore is allowed
  between two digits.
\<close>

fun parse_digits :: "nat \<Rightarrow> string \<Rightarrow> nat option" where
  "parse_digits acc [] = Some acc"
| "parse_digits acc [c] =
     (case digit_val c of None \<Rightarrow> None | Some v \<Rightarrow> Some (10 * acc + v))"
| "parse_digits acc (c # d # ds) =
     (if c = CHR ''_'' then
        (case digit_val d of
           None \<Rightarrow> None
         | Some v \<Rightarrow> parse_digits (10 * acc + v) ds)
      else
        (case digit_val c of
           None \<Rightarrow> None
         | Some v \<Rightarrow> parse_digits (10 * acc + v) (d # ds)))"

text \<open>
  \<^verbatim>\<open>int()\<close> refuses a literal of more digits than \<^verbatim>\<open>sys.int_info.default_max_str_digits\<close>
  with \<^verbatim>\<open>ValueError\<close>; the underscores do not count.
\<close>

definition max_str_digits :: nat where
  "max_str_digits = 4300"

definition parse_unsigned :: "string \<Rightarrow> nat option" where
  "parse_unsigned s =
     (case s of
        [] \<Rightarrow> None
      | c # cs \<Rightarrow>
          if digit_val c = None then None
          else if max_str_digits < length (filter (\<lambda>d. d \<noteq> CHR ''_'') s) then None
          else parse_digits 0 s)"

text \<open>
  \<^verbatim>\<open>int(s)\<close>: \<^term>\<open>None\<close> stands for the \<^verbatim>\<open>ValueError\<close> that the callers catch.
\<close>

definition py_int :: "string \<Rightarrow> int option" where
  "py_int s =
     (case strip_by is_space s of
        [] \<Rightarrow> None
      | c # cs \<Rightarrow>
          if c = CHR ''-'' then map_option (\<lambda>n. - int n) (parse_unsigned cs)
          else if c = CHR ''+'' then map_option int (parse_unsigned cs)
          else map_option int (parse_unsigned (c # cs)))"

text \<open>
  \<^verbatim>\<open>str(n)\<close> of an integer, as an f-string formats it. The integers formatted in
  \<^verbatim>\<open>app.py\<close> are one more than an index read from a file name.
\<close>

definition digit_char :: "nat \<Rightarrow> char" where
  "digit_char d = ''0123456789'' ! d"

fun str_nat :: "nat \<Rightarrow> string" where
  "str_nat n = (if n < 10 then [digit_char n] else str_nat (n div 10) @ [digit_char (n mod 10)])"

declare str_nat.simps [simp del]

definition str_int :: "int \<Rightarrow> string" where
  "str_int i = (if i < 0 then CHR ''-'' # str_nat (nat (- i)) else str_nat (nat i))"

section \<open>Paths\<close>

text \<open>\<^verbatim>\<open>os.path.basename\<close>: what follows the last slash.\<close>

definition basename :: "string \<Rightarrow> string" where
  "basename p = last (split_on CHR ''/'' p)"

text \<open>
  The extension part of \<^verbatim>\<open>os.path.splitext\<close> (POSIX): from the last dot of the base
  name, leading dots of the base name not counting.
\<close>

definition splitext_ext :: "string \<Rightarrow> string" where
  "splitext_ext p =
     (let name = dropWhile (\<lambda>c. c = CHR ''.'') (basename p)
      in if CHR ''.'' \<in> set name then CHR ''.'' # last (split_on CHR ''.'' name) else [])"

text \<open>
  \<^verbatim>\<open>Path.stem\<close> of a file name: the name without its last suffix, where a dot at the
  first or the last position starts no suffix.
\<close>

definition stem :: "string \<Rightarrow> string" where
  "stem name =
     (let suffix = last (split_on CHR ''.'' name)
      in if CHR ''.'' \<in> set name \<and> suffix \<noteq> [] \<and> length suffix + 1 < length name
         then take (length name - length suffix - 1) name
         else name)"

text \<open>
  Paths are written as strings; \<^verbatim>\<open>save_dir / name\<close> for a directory and a file name
  without a slash. \<^verbatim>\<open>pathlib\<close> drops an empty component and the component \<^verbatim>\<open>.\<close>.
\<close>

definition path_join :: "string \<Rightarrow> string \<Rightarrow> string" where
  "path_join d name = (if name = [] \<or> name = ''.'' then d else d @ ''/'' @ name)"

definition IMAGE_DIR :: string where
  "IMAGE_DIR = path_join ''data'' ''images''"

definition VIDEO_DIR :: string where
  "VIDEO_DIR = path_join ''data'' ''videos''"

definition MERGE_OUTPUT_FORMAT :: string where
  "MERGE_OUTPUT_FORMAT = ''mp4''"

section \<open>Exceptions, actions and the collaborators\<close>

text \<open>
  The exceptions of the pipeline: the three that \<^verbatim>\<open>app.py\<close> itself can raise, and
  \<open>Raised msg\<close> for an exception that an external collaborator (the URL parser, the
  browser, the HTTP client, the video fetcher) raises. All of them are caught by
  \<^verbatim>\<open>except Exception\<close>.
\<close>

datatype exn = IndexError | TypeError | UnboundLocalError | Raised string

text \<open>
  What a call does besides returning: the lines it prints and the requests it makes to
  its collaborators, in order.
\<close>

datatype event =
    Print string
  | Print_exn string exn
  | Print_links "string list"
  | Launch_sniff string
  | Launch_scrape string
  | Head string
  | Get string string
  | Mkdir string
  | Ytdlp string string
  | Rename string string

type_synonym 'a io = "event list \<times> (exn + 'a)"

definition io_return :: "'a \<Rightarrow> 'a io" where
  "io_return x = ([], Inr x)"

definition io_raise :: "exn \<Rightarrow> 'a io" where
  "io_raise e = ([], Inl e)"

definition io_lift :: "exn + 'a \<Rightarrow> 'a io" where
  "io_lift r = ([], r)"

definition io_emit :: "event \<Rightarrow> unit io" where
  "io_emit ev = ([ev], Inr ())"

definition io_bind :: "'a io \<Rightarrow> ('a \<Rightarrow> 'b io) \<Rightarrow> 'b io" where
  "io_bind m f =
     (case m of
        (t, Inl e) \<Rightarrow> (t, Inl e)
      | (t, Inr x) \<Rightarrow> (case f x of (t', r) \<Rightarrow> (t @ t', r)))"

definition io_then :: "unit io \<Rightarrow> 'b io \<Rightarrow> 'b io" where
  "io_then m k = io_bind m (\<lambda>_. k)"

text \<open>\<^verbatim>\<open>try: m except Exception as e: h(e)\<close>.\<close>

definition io_try :: "'a io \<Rightarrow> (exn \<Rightarrow> 'a io) \<Rightarrow> 'a io" where
  "io_try m h =
     (case m of
        (t, Inl e) \<Rightarrow> (case h e of (t', r) \<Rightarrow> (t @ t', r))
      | (t, Inr x) \<Rightarrow> (t, Inr x))"

text \<open>\<^verbatim>\<open>[m for m in xs if p(m)]\<close> and \<^verbatim>\<open>all(p(m) for m in xs)\<close>, which stops at the first miss.\<close>

fun io_filter :: "('a \<Rightarrow> bool io) \<Rightarrow> 'a list \<Rightarrow> 'a list io" where
  "io_filter p [] = io_return []"
| "io_filter p (x # xs) =
     io_bind (p x) (\<lambda>b. io_bind (io_filter p xs) (\<lambda>ys. io_return (if b then x # ys else ys)))"

fun io_all :: "('a \<Rightarrow> bool io) \<Rightarrow> 'a list \<Rightarrow> bool io" where
  "io_all p [] = io_return True"
| "io_all p (x # xs) = io_bind (p x) (\<lambda>b. if b then io_all p xs else io_return False)"

text \<open>The two fields of \<^verbatim>\<open>urlparse(url)\<close> that the pipeline reads.\<close>

record ParseResult =
  netloc :: string
  path :: string

text \<open>
  What the rendered page answers to the meta-tag sniff of \<^verbatim>\<open>detect_platform\<close>: an
  exception inside the guarded block (navigation, wait, query), or whether each of the
  two markers is there.
\<close>

datatype sniffed = Sniff_raises exn | Sniff_meta bool bool

text \<open>
  What the rendered page answers to the scraper: whether navigation raised, whether the
  wait for a media selector timed out, and for each of the three selector groups the
  \<^verbatim>\<open>src\<close> attribute of every matching element, or the exception the query raised.
\<close>

record page =
  goto_error :: "exn option"
  selector_timeout :: bool
  video_srcs :: "exn + string option list"
  marked_img_srcs :: "exn + string option list"
  scontent_img_srcs :: "exn + string option list"

text \<open>
  The external collaborators, each answering a request the same way during one
  acquisition call:
  \<^item> \<open>urlparse\<close>: the URL parser, which raises on a malformed network location;
  \<^item> \<open>sniff\<close> and \<open>scrape\<close>: a browser session on a URL; \<open>Inl\<close> when the session
    cannot be started (the calls before the guarded block);
  \<^item> \<open>http_head\<close>: the \<^verbatim>\<open>Content-Type\<close> header of a HEAD request, if present;
  \<^item> \<open>http_get\<close>: the streaming GET of a URL into a local file;
  \<^item> \<open>guess_extension\<close>: the table of \<^verbatim>\<open>mimetypes\<close>;
  \<^item> \<open>glob\<close>: the names in a directory that match a pattern;
  \<^item> \<open>ytdlp\<close>: the video fetcher on a URL and an output template, answering the
    \<^verbatim>\<open>ext\<close> entry of its info dictionary, if present;
  \<^item> \<open>path_exists\<close>: whether a path exists once the video fetcher has returned.
  Creating a directory and closing the browser are taken not to raise.
\<close>

record env =
  urlparse :: "string \<Rightarrow> exn + ParseResult"
  sniff :: "string \<Rightarrow> exn + sniffed"
  scrape :: "string \<Rightarrow> exn + page"
  http_head :: "string \<Rightarrow> exn + string option"
  http_get :: "string \<Rightarrow> string \<Rightarrow> exn + unit"
  guess_extension :: "string \<Rightarrow> string option"
  glob :: "string \<Rightarrow> string \<Rightarrow> string list"
  ytdlp :: "string \<Rightarrow> string \<Rightarrow> exn + string option"
  path_exists :: "string \<Rightarrow> bool"

section \<open>Platform detection\<close>

definition io_print :: "string \<Rightarrow> unit io" where
  "io_print line = io_emit (Print line)"

text \<open>
  \<^verbatim>\<open>detect_platform\<close> of \<^verbatim>\<open>app.py\<close>: the result is the platform tag, \<^term>\<open>None\<close> for
  Python's \<^verbatim>\<open>None\<close>.
\<close>

definition detect_platform :: "env \<Rightarrow> string \<Rightarrow> string option io" where
  "detect_platform env url =
     io_bind (io_lift (urlparse env url)) (\<lambda>parsed.
       let domain = lower (netloc parsed) in
       if str_in ''facebook.com'' domain then
         io_then (io_print ''[DEBUG] Detected platform by domain: Facebook'')
           (io_return (Some ''facebook''))
       else if str_in ''youtube.com'' domain \<or> str_in ''youtu.be'' domain then
         io_then (io_print ''[DEBUG] Detected platform by domain: YouTube'')
           (io_return (Some ''youtube''))
       else
         io_then (io_emit (Launch_sniff url))
           (io_bind (io_lift (sniff env url)) (\<lambda>answer.
              case answer of
                Sniff_meta og_facebook itemprop_youtube \<Rightarrow>
                  if og_facebook then io_return (Some ''facebook'')
                  else if itemprop_youtube then io_return (Some ''youtube'')
                  else io_return None
              | Sniff_raises e \<Rightarrow>
                  io_then (io_emit (Print_exn ''[WARN] Failed meta-tag sniff: '' e))
                    (io_return None))))"

section \<open>Media type of a URL\<close>

definition truthy :: "string option \<Rightarrow> bool" where
  "truthy v = (case v of None \<Rightarrow> False | Some s \<Rightarrow> s \<noteq> [])"

definition head_content_type :: "env \<Rightarrow> string \<Rightarrow> string option io" where
  "head_content_type env url =
     io_then (io_emit (Head url))
       (io_return
          (case http_head env url of
             Inl e \<Rightarrow> None
           | Inr ct \<Rightarrow>
               if truthy ct then Some (lower (strip (hd (split_on CHR '';'' (the ct)))))
               else None))"

definition get_media_type_from_url :: "env \<Rightarrow> string \<Rightarrow> string option io" where
  "get_media_type_from_url env url =
     io_bind (head_content_type env url) (\<lambda>mime.
       if truthy mime \<and> prefix ''image/'' (the mime) then io_return (Some ''image'')
       else if truthy mime \<and> prefix ''video/'' (the mime) then io_return (Some ''video'')
       else
         io_bind (io_lift (urlparse env url)) (\<lambda>parsed.
           let ext = lower (splitext_ext (path parsed)) in
           if ext \<in> set [''.jpg'', ''.jpeg'', ''.png'', ''.gif''] then io_return (Some ''image'')
           else if ext \<in> set [''.mp4'', ''.mov'', ''.mkv'', ''.avi''] then io_return (Some ''video'')
           else io_return None))"

section \<open>Scraper\<close>

text \<open>One element loop: the \<^verbatim>\<open>src\<close> values that are non-empty and name the CDN.\<close>

definition fbcdn_srcs :: "string option list \<Rightarrow> string list" where
  "fbcdn_srcs srcs = map the (filter (\<lambda>src. truthy src \<and> str_in ''fbcdn.net'' (the src)) srcs)"

text \<open>
  The guarded block of \<^verbatim>\<open>scrape_media_urls\<close>: what it prints and the
  \<^verbatim>\<open>media_links\<close> it has appended when it ends or when an exception stops it.
\<close>

definition collect_media :: "page \<Rightarrow> event list \<times> string list" where
  "collect_media p =
     (let failed = (\<lambda>e. [Print_exn ''[WARN] Error during scraping: '' e]) in
      (case goto_error p of
        Some e \<Rightarrow> (failed e, [])
      | None \<Rightarrow>
          let waited = (if selector_timeout p
                        then [Print ''[WARN] Media selector not found within 20s''] else [])
          in (case video_srcs p of
                Inl e \<Rightarrow> (waited @ failed e, [])
              | Inr vs \<Rightarrow>
                  (case marked_img_srcs p of
                     Inl e \<Rightarrow> (waited @ failed e, fbcdn_srcs vs)
                   | Inr ms \<Rightarrow>
                       (case scontent_img_srcs p of
                          Inl e \<Rightarrow> (waited @ failed e, fbcdn_srcs vs @ fbcdn_srcs ms)
                        | Inr ss \<Rightarrow>
                            (waited, fbcdn_srcs vs @ fbcdn_srcs ms @ fbcdn_srcs ss))))))"

text \<open>The loop over \<^verbatim>\<open>media_links\<close> with the set \<^verbatim>\<open>seen\<close> and the list \<^verbatim>\<open>unique_links\<close>.\<close>

fun dedup_loop :: "string list \<Rightarrow> string set \<Rightarrow> string list \<Rightarrow> string list" where
  "dedup_loop [] seen unique_links = unique_links"
| "dedup_loop (m # ms) seen unique_links =
     (if m \<notin> seen then dedup_loop ms (insert m seen) (unique_links @ [m])
      else dedup_loop ms seen unique_links)"

definition dedup :: "string list \<Rightarrow> string list" where
  "dedup media_links = dedup_loop media_links {} []"

definition scrape_media_urls :: "env \<Rightarrow> string \<Rightarrow> string list io" where
  "scrape_media_urls env url =
     io_then (io_emit (Launch_scrape url))
       (io_bind (io_lift (scrape env url)) (\<lambda>p.
          case collect_media p of
            (printed, media_links) \<Rightarrow>
              let unique_links = dedup media_links
              in (printed @ [Print_links unique_links], Inr unique_links)))"

section \<open>Download helpers\<close>

definition download_with_requests :: "env \<Rightarrow> string \<Rightarrow> string \<Rightarrow> string option io" where
  "download_with_requests env url save_dir =
     io_then (io_emit (Mkdir save_dir))
       (io_bind (io_lift (urlparse env url)) (\<lambda>parsed.
          io_bind
            (let filename = basename (path parsed) in
             if CHR ''.'' \<notin> set filename then
               io_bind (head_content_type env url) (\<lambda>mime.
                 case (if truthy mime then guess_extension env (the mime) else Some ''.bin'') of
                   Some ext \<Rightarrow> io_return (filename @ ext)
                 | None \<Rightarrow> io_raise TypeError)
             else io_return filename)
            (\<lambda>filename.
               let local_filename = path_join save_dir filename in
               io_then (io_emit (Get url local_filename))
                 (case http_get env url local_filename of
                    Inr done \<Rightarrow>
                      io_then (io_print (''[INFO] Saved: '' @ local_filename))
                        (io_return (Some local_filename))
                  | Inl e \<Rightarrow>
                      io_then (io_emit (Print_exn (''[ERROR] Failed to download '' @ url @ '': '') e))
                        (io_return None)))))"

text \<open>\<^verbatim>\<open>max(nums)\<close> of a non-empty list.\<close>

definition py_max :: "int list \<Rightarrow> int" where
  "py_max nums = fold max (tl nums) (hd nums)"

text \<open>
  The loop over \<^verbatim>\<open>existing_files\<close>: the integer after the last underscore of each
  stem, the names where \<^verbatim>\<open>int\<close> raises \<^verbatim>\<open>ValueError\<close> skipped.
\<close>

definition file_nums :: "string list \<Rightarrow> int list" where
  "file_nums existing_files =
     List.map_filter (\<lambda>f. py_int (last (split_on CHR ''_'' (stem f)))) existing_files"

text \<open>
  \<^verbatim>\<open>download_with_ytdlp\<close>. The dictionary \<^verbatim>\<open>ydl_opts\<close> is written with the key
  \<^verbatim>\<open>'outtmpl'\<close> twice, and a dictionary display keeps the last value of a repeated key:
  the template handed to the video fetcher is the second one.
\<close>

definition download_with_ytdlp :: "env \<Rightarrow> string \<Rightarrow> string \<Rightarrow> string io" where
  "download_with_ytdlp env url save_dir =
     io_then (io_emit (Mkdir save_dir))
       (io_bind (io_lift (urlparse env url)) (\<lambda>parsed.
          let labels = split_on CHR ''.'' (lower (netloc parsed)) in
          if length labels < 2 then io_raise IndexError
          else
            let domain = labels ! (length labels - 2);
                existing_files = glob env save_dir (domain @ ''_*'');
                nums = file_nums existing_files;
                next_num = (if existing_files \<noteq> []
                            then (if nums \<noteq> [] then py_max nums + 1 else 1)
                            else 1);
                temp_name = domain @ ''_temp.%(ext)s'';
                outtmpl = path_join save_dir (domain @ ''_'' @ str_int next_num @ ''.%(ext)s'')
            in io_then (io_emit (Ytdlp url outtmpl))
                 (io_bind (io_lift (ytdlp env url outtmpl)) (\<lambda>info_ext.
                    let ext = (case info_ext of Some e \<Rightarrow> e | None \<Rightarrow> ''mp4'');
                        final_name = domain @ ''_'' @ str_int next_num @ ''.'' @ ext;
                        temp_path = path_join save_dir (domain @ ''_temp.'' @ ext);
                        final_path = path_join save_dir final_name
                    in io_then
                         (if path_exists env temp_path then io_emit (Rename temp_path final_path)
                          else io_return ())
                         (io_return final_path)))))"

definition get_photo_index :: "env \<Rightarrow> string \<Rightarrow> int io" where
  "get_photo_index env url =
     io_bind (io_lift (urlparse env url)) (\<lambda>parsed.
       let parts = split_on CHR ''/'' (path parsed) in
       if ''photo'' \<in> set parts then
         (case py_int (last parts) of
            Some n \<Rightarrow> io_return n
          | None \<Rightarrow> io_return 1)
       else io_return 1)"

section \<open>Unified download\<close>

definition is_type :: "env \<Rightarrow> string \<Rightarrow> string \<Rightarrow> bool io" where
  "is_type env kind m = io_bind (get_media_type_from_url env m) (\<lambda>t. io_return (t = Some kind))"

text \<open>
  The handler of the Facebook video branch (lines 248 to 261): scraping after the video
  fetcher has raised \<open>e\<close>. The ellipsis character that ends the second printed line
  is written here as three dots.
\<close>

definition facebook_fallback :: "env \<Rightarrow> string \<Rightarrow> exn \<Rightarrow> string option io" where
  "facebook_fallback env url e =
     io_then (io_emit (Print_exn ''[WARN] yt-dlp failed for Facebook: '' e))
    (io_then (io_print ''[INFO] Attempting scraping fallback...'')
    (io_bind (scrape_media_urls env url) (\<lambda>media_links.
       let give_up = io_then (io_print ''[ERROR] Fallback also failed or found no usable media.'')
                       (io_return None)
       in if media_links \<noteq> [] then
            io_bind (io_filter (is_type env ''video'') media_links) (\<lambda>vids.
            io_bind (io_filter (is_type env ''image'') media_links) (\<lambda>imgs.
              if vids \<noteq> [] then download_with_requests env (hd vids) VIDEO_DIR
              else if imgs \<noteq> [] then download_with_requests env (hd imgs) IMAGE_DIR
              else give_up))
          else give_up)))"

text \<open>
  The Facebook branch for the other URL shapes (lines 263 to 280). The variable
  \<^verbatim>\<open>index\<close> is assigned only under \<^verbatim>\<open>if imgs:\<close>, and the test that reads it stands
  outside that \<^verbatim>\<open>if\<close>: \<^term>\<open>None\<close> is the unassigned variable, and reading it raises.
\<close>

definition facebook_scrape :: "env \<Rightarrow> string \<Rightarrow> string option io" where
  "facebook_scrape env url =
     io_bind (scrape_media_urls env url) (\<lambda>media_links.
       if media_links \<noteq> [] then
         io_bind (io_filter (is_type env ''video'') media_links) (\<lambda>vids.
         io_bind (io_filter (is_type env ''image'') media_links) (\<lambda>imgs.
           if vids \<noteq> [] then download_with_requests env (hd vids) VIDEO_DIR
           else
             io_bind
               (if imgs \<noteq> [] then
                  io_bind (get_photo_index env url) (\<lambda>i. io_return (Some (i - 1)))
                else io_return None)
               (\<lambda>index.
                  case index of
                    None \<Rightarrow> io_raise UnboundLocalError
                  | Some index \<Rightarrow>
                      if 0 \<le> index \<and> index < int (length imgs) then
                        download_with_requests env (imgs ! nat index) IMAGE_DIR
                      else
                        io_then
                          (io_print
                             ''[WARN] Requested photo index out of range, defaulting to first image.'')
                          (download_with_requests env (imgs ! 0) IMAGE_DIR))))
       else
         io_then (io_print ''[ERROR] Fallback also failed or found no usable media.'')
           (io_return None))"

text \<open>The branch after the two platform tests (lines 283 to 295).\<close>

definition generic_scrape :: "env \<Rightarrow> string \<Rightarrow> string option io" where
  "generic_scrape env url =
     io_bind (scrape_media_urls env url) (\<lambda>media_links.
       if media_links = [] then
         io_then (io_print ''[WARN] No media links found.'') (io_return None)
       else
         io_bind (get_media_type_from_url env (hd media_links)) (\<lambda>first_type.
         io_bind (io_all (is_type env ''image'') media_links) (\<lambda>all_images.
           if all_images then download_with_requests env (hd media_links) IMAGE_DIR
           else
             io_bind (io_all (is_type env ''video'') media_links) (\<lambda>all_videos.
               if all_videos then download_with_requests env (hd media_links) VIDEO_DIR
               else
                 let target_dir = (if first_type = Some ''image'' then IMAGE_DIR else VIDEO_DIR)
                 in download_with_requests env (hd media_links) target_dir))))"

text \<open>Whether the URL has the shape of a Facebook watch, reel, video or story page.\<close>

definition video_shaped :: "string \<Rightarrow> string \<Rightarrow> bool" where
  "video_shaped path_lower url =
     (list_ex (\<lambda>k. str_in k path_lower) [''/watch'', ''/reel'', ''/videos'', ''/stories'']
      \<or> str_in ''story_fbid'' (lower url))"

text \<open>The YouTube branch (lines 231 to 237) and the Facebook branch (lines 240 to 280).\<close>

definition youtube_fetch :: "env \<Rightarrow> string \<Rightarrow> string option io" where
  "youtube_fetch env url =
     io_try (io_bind (download_with_ytdlp env url VIDEO_DIR) (\<lambda>f. io_return (Some f)))
       (\<lambda>e. io_then (io_emit (Print_exn ''[WARN] yt-dlp failed for YouTube: '' e))
             (io_then (io_print ''[INFO] Skipping scraping fallback for YouTube.'')
             (io_return None)))"

definition facebook_branch :: "env \<Rightarrow> string \<Rightarrow> string option io" where
  "facebook_branch env url =
     io_bind (io_lift (urlparse env url)) (\<lambda>parsed.
       let path_lower = lower (path parsed) in
       if video_shaped path_lower url then
         io_try (io_bind (download_with_ytdlp env url VIDEO_DIR) (\<lambda>f. io_return (Some f)))
           (facebook_fallback env url)
       else facebook_scrape env url)"

definition unsupported_url :: "string option io" where
  "unsupported_url = io_then (io_print ''[ERROR] Unsupported or invalid URL.'') (io_return None)"

definition download_media :: "env \<Rightarrow> string \<Rightarrow> string option io" where
  "download_media env url =
     io_bind (detect_platform env url) (\<lambda>platform.
       if \<not> truthy platform then unsupported_url
       else if platform = Some ''youtube'' then youtube_fetch env url
       else if platform = Some ''facebook'' then facebook_branch env url
       else generic_scrape env url)"

text \<open>
  Which block of \<^verbatim>\<open>download_media\<close> runs for a value of \<^verbatim>\<open>platform\<close>: the chain of tests
  of lines 227, 231 and 240, and the block of lines 283 to 295 when none of them holds.
\<close>

datatype branch = Unsupported | Youtube | Facebook | Generic

definition branch_of :: "string option \<Rightarrow> branch" where
  "branch_of platform =
     (if \<not> truthy platform then Unsupported
      else if platform = Some ''youtube'' then Youtube
      else if platform = Some ''facebook'' then Facebook
      else Generic)"

text \<open>
  The actions of a fetch or scrape strategy: everything but printing and the browser
  session of the meta-tag sniff.
\<close>

fun strategy_event :: "event \<Rightarrow> bool" where
  "strategy_event (Print line) = False"
| "strategy_event (Print_exn line e) = False"
| "strategy_event (Print_links links) = False"
| "strategy_event (Launch_sniff url) = False"
| "strategy_event (Launch_scrape url) = True"
| "strategy_event (Head url) = True"
| "strategy_event (Get url file) = True"
| "strategy_event (Mkdir d) = True"
| "strategy_event (Ytdlp url template) = True"
| "strategy_event (Rename a b) = True"

text \<open>\<open>io_after t m\<close>: the call \<open>m\<close> made after the actions \<open>t\<close>.\<close>

definition io_after :: "event list \<Rightarrow> 'a io \<Rightarrow> 'a io" where
  "io_after t m = (t @ fst m, snd m)"

text \<open>
  What \<^verbatim>\<open>download_media\<close> has done on the Facebook scrape path once the scraped links are
  sorted into videos and images.
\<close>

definition partition_trace :: "env \<Rightarrow> string \<Rightarrow> string list \<Rightarrow> event list" where
  "partition_trace env url links =
     fst (detect_platform env url) @ fst (scrape_media_urls env url)
     @ fst (io_filter (is_type env ''video'') links)
     @ fst (io_filter (is_type env ''image'') links)"

text \<open>The streaming GET of the generic download.\<close>

fun is_get :: "event \<Rightarrow> bool" where
  "is_get (Get url file) = True"
| "is_get ev = False"

section \<open>Example environments\<close>

text \<open>
  \<open>offline\<close> answers \<^verbatim>\<open>urlparse\<close> for the URLs of the examples below and fails every
  request to the network, the browser and the video fetcher; each example switches on
  what it needs.
\<close>

definition example_urls :: "(string \<times> string \<times> string) list" where
  "example_urls =
     [(''https://youtube.com.facebook.com/'', ''youtube.com.facebook.com'', ''/''),
      (''https://www.youtube.com/watch?v=abc'', ''www.youtube.com'', ''/watch''),
      (''https://youtu.be/abc'', ''youtu.be'', ''/abc''),
      (''https://example.com/clip'', ''example.com'', ''/clip''),
      (''https://www.facebook.com/watch/?v=1'', ''www.facebook.com'', ''/watch/''),
      (''https://www.facebook.com/photo/3/'', ''www.facebook.com'', ''/photo/3/''),
      (''https://www.facebook.com/page/photo/3'', ''www.facebook.com'', ''/page/photo/3''),
      (''https://scontent.fbcdn.net/v/a.jpg'', ''scontent.fbcdn.net'', ''/v/a.jpg''),
      (''https://scontent.fbcdn.net/v/b.jpg'', ''scontent.fbcdn.net'', ''/v/b.jpg''),
      (''https://scontent.fbcdn.net/v/c.jpg'', ''scontent.fbcdn.net'', ''/v/c.jpg''),
      (''https://scontent.fbcdn.net/v/d.jpg'', ''scontent.fbcdn.net'', ''/v/d.jpg''),
      (''https://scontent.fbcdn.net/v/e.jpg'', ''scontent.fbcdn.net'', ''/v/e.jpg''),
      (''https://video.fbcdn.net/v/clip.mp4'', ''video.fbcdn.net'', ''/v/clip.mp4''),
      (''https://scontent.fbcdn.net/v/blob'', ''scontent.fbcdn.net'', ''/v/blob'')]"

definition offline :: env where
  "offline =
     \<lparr>urlparse = (\<lambda>u. case map_of example_urls u of
                         Some (n, p) \<Rightarrow> Inr \<lparr>netloc = n, path = p\<rparr>
                       | None \<Rightarrow> Inr \<lparr>netloc = [], path = u\<rparr>),
      sniff = (\<lambda>u. Inl (Raised ''browser not installed'')),
      scrape = (\<lambda>u. Inl (Raised ''browser not installed'')),
      http_head = (\<lambda>u. Inl (Raised ''no network'')),
      http_get = (\<lambda>u f. Inl (Raised ''no network'')),
      guess_extension = (\<lambda>m. None),
      glob = (\<lambda>d pattern. []),
      ytdlp = (\<lambda>u template. Inl (Raised ''no network'')),
      path_exists = (\<lambda>p. False)\<rparr>"

text \<open>
  A loaded page that shows the given videos and the given images, the images under the
  \<^verbatim>\<open>scontent\<close> selector.
\<close>

definition page_with :: "string list \<Rightarrow> string list \<Rightarrow> page" where
  "page_with videos images =
     \<lparr>goto_error = None, selector_timeout = False,
      video_srcs = Inr (map Some videos),
      marked_img_srcs = Inr [],
      scontent_img_srcs = Inr (map Some images)\<rparr>"

text \<open>
  \<open>fetching names\<close>: the video fetcher works and reports \<^verbatim>\<open>mp4\<close>; the destination
  directory holds \<open>names\<close>, and a pattern \<^verbatim>\<open>prefix*\<close> matches the names with that prefix.
\<close>

definition listing_glob :: "string list \<Rightarrow> string \<Rightarrow> string \<Rightarrow> string list" where
  "listing_glob names d pattern = filter (\<lambda>name. prefix (butlast pattern) name) names"

definition fetching :: "string list \<Rightarrow> env" where
  "fetching names =
     offline\<lparr>glob := listing_glob names, ytdlp := (\<lambda>u template. Inr (Some ''mp4''))\<rparr>"

text \<open>\<open>browsing videos images\<close>: the browser shows that page, and every GET succeeds.\<close>

definition browsing :: "string list \<Rightarrow> string list \<Rightarrow> env" where
  "browsing videos images =
     offline\<lparr>scrape := (\<lambda>u. Inr (page_with videos images)), http_get := (\<lambda>u f. Inr ())\<rparr>"

text \<open>\<open>stalled videos images\<close>: the same page, and every GET times out.\<close>

definition stalled :: "string list \<Rightarrow> string list \<Rightarrow> env" where
  "stalled videos images =
     (browsing videos images)\<lparr>http_get := (\<lambda>u f. Inl (Raised ''Read timed out''))\<rparr>"

text \<open>
  \<open>rejecting bad env\<close>: the URL parser raises on \<open>bad\<close>, as \<^verbatim>\<open>urlparse\<close> does with
  \<^verbatim>\<open>ValueError\<close> on a network location with an unmatched bracket.
\<close>

definition rejecting :: "string \<Rightarrow> env \<Rightarrow> env" where
  "rejecting bad env =
     env\<lparr>urlparse := (\<lambda>u. if u = bad then Inl (Raised ''Invalid IPv6 URL'') else urlparse env u)\<rparr>"

section \<open>The words of the specification\<close>

text \<open>
  Deduplication as the specification words it: every element once, at the place of its
  first occurrence.
\<close>

fun first_occurrences :: "'a list \<Rightarrow> 'a list" where
  "first_occurrences [] = []"
| "first_occurrences (x # xs) = x # first_occurrences (removeAll x xs)"

text \<open>
  The photo index as the specification words it: the numeric value of the path segment
  that follows the first \<^verbatim>\<open>photo\<close> component, and 1 when that segment is absent or not
  numeric.
\<close>

fun segment_after :: "string \<Rightarrow> string list \<Rightarrow> string option" where
  "segment_after k [] = None"
| "segment_after k [x] = None"
| "segment_after k (x # y # ys) = (if x = k then Some y else segment_after k (y # ys))"

definition photo_index_spec :: "string \<Rightarrow> int" where
  "photo_index_spec p =
     (case segment_after ''photo'' (split_on CHR ''/'' p) of
        Some s \<Rightarrow> (case py_int s of Some n \<Rightarrow> n | None \<Rightarrow> 1)
      | None \<Rightarrow> 1)"

section \<open>Unfolding the model\<close>

lemmas io_defs = io_return_def io_raise_def io_lift_def io_emit_def io_bind_def io_then_def
  io_try_def io_print_def io_after_def

lemmas env_simps = offline_def example_urls_def lower_def lower_char_def

lemmas int_simps = py_int_def strip_by_def is_space_def parse_unsigned_def digit_val_def
  max_str_digits_def

lemmas name_simps = file_nums_def stem_def map_filter_simps int_simps str_int_def
  str_nat.simps digit_char_def path_join_def VIDEO_DIR_def IMAGE_DIR_def listing_glob_def

lemmas media_simps = get_media_type_from_url_def head_content_type_def truthy_def
  splitext_ext_def basename_def is_type_def

lemmas scrape_simps = scrape_media_urls_def collect_media_def fbcdn_srcs_def dedup_def
  page_with_def

lemma io_bind_after: "snd m = Inr x \<Longrightarrow> io_bind m f = io_after (fst m) (f x)"
  by (cases m) (simp add: io_bind_def io_after_def split: prod.splits)

lemma io_bind_raise:
  "snd m = Inl e \<Longrightarrow> snd (io_bind m f) = Inl e \<and> fst (io_bind m f) = fst m"
  by (cases m) (simp add: io_bind_def)

lemma io_try_raise: "snd m = Inl e \<Longrightarrow> io_try m h = io_after (fst m) (h e)"
  by (cases m) (simp add: io_try_def io_after_def split: prod.splits)

lemma io_after_after: "io_after t (io_after t' m) = io_after (t @ t') m"
  by (simp add: io_after_def)

lemma io_print_after: "io_then (io_print line) m = io_after [Print line] m"
  by (simp add: io_defs split: prod.splits)

lemma io_emit_after: "io_then (io_emit ev) m = io_after [ev] m"
  by (simp add: io_defs split: prod.splits)

lemma io_lift_bind: "io_bind (io_lift (Inr x)) f = f x"
  by (simp add: io_defs split: prod.splits)

lemma io_return_bind: "io_bind (io_return x) f = f x"
  by (simp add: io_defs split: prod.splits)

section \<open>Platform detection: the claims\<close>

text \<open>
  Claim C8, as amended. For every URL whose network location contains, letter case
  ignored, \<^verbatim>\<open>youtube.com\<close> or \<^verbatim>\<open>youtu.be\<close> and does not contain \<^verbatim>\<open>facebook.com\<close>,
  \<^verbatim>\<open>detect_platform\<close> returns \<^verbatim>\<open>"youtube"\<close>, and all it does is print one line: no
  browser session is started for the meta-tag sniff.
\<close>

theorem detect_platform_youtube:
  assumes "urlparse env url = Inr parsed"
    and "str_in ''youtube.com'' (lower (netloc parsed))
         \<or> str_in ''youtu.be'' (lower (netloc parsed))"
    and "\<not> str_in ''facebook.com'' (lower (netloc parsed))"
  shows "detect_platform env url =
           ([Print ''[DEBUG] Detected platform by domain: YouTube''], Inr (Some ''youtube''))"
  using assms by (simp add: detect_platform_def io_defs)

theorem detect_platform_youtube_witness:
  "urlparse offline ''https://youtu.be/abc'' = Inr \<lparr>netloc = ''youtu.be'', path = ''/abc''\<rparr>
   \<and> str_in ''youtu.be'' (lower ''youtu.be'')
   \<and> \<not> str_in ''facebook.com'' (lower ''youtu.be'')
   \<and> detect_platform offline ''https://youtu.be/abc'' =
       ([Print ''[DEBUG] Detected platform by domain: YouTube''], Inr (Some ''youtube''))"
  using detect_platform_youtube
    [of offline "''https://youtu.be/abc''" "\<lparr>netloc = ''youtu.be'', path = ''/abc''\<rparr>"]
  by (simp add: env_simps)

text \<open>
  The claim as the specification states it fails where the network location contains
  both \<^verbatim>\<open>youtube.com\<close> and \<^verbatim>\<open>facebook.com\<close>: the test for Facebook comes first.
\<close>

theorem youtube_host_counterexample:
  "urlparse offline ''https://youtube.com.facebook.com/'' =
     Inr \<lparr>netloc = ''youtube.com.facebook.com'', path = ''/''\<rparr>
   \<and> str_in ''youtube.com'' (lower ''youtube.com.facebook.com'')
   \<and> detect_platform offline ''https://youtube.com.facebook.com/'' =
       ([Print ''[DEBUG] Detected platform by domain: Facebook''], Inr (Some ''facebook''))"
  by (simp add: detect_platform_def io_defs env_simps)

text \<open>
  Claim C9, as amended. When the network location names no known platform and, the
  browser session once started, the rendered page shows neither marker or the guarded
  page operations (navigation, wait, query) raise, \<^verbatim>\<open>detect_platform\<close> returns \<^verbatim>\<open>None\<close>,
  and \<^verbatim>\<open>download_media\<close> returns \<^verbatim>\<open>None\<close> without any action of a fetch or scrape
  strategy.
\<close>

theorem unknown_platform_aborts:
  assumes "urlparse env url = Inr parsed"
    and "\<not> str_in ''facebook.com'' (lower (netloc parsed))"
    and "\<not> str_in ''youtube.com'' (lower (netloc parsed))"
    and "\<not> str_in ''youtu.be'' (lower (netloc parsed))"
    and "sniff env url = Inr (Sniff_meta False False) \<or> sniff env url = Inr (Sniff_raises e)"
  shows "snd (detect_platform env url) = Inr None
    \<and> snd (download_media env url) = Inr None
    \<and> filter strategy_event (fst (download_media env url)) = []"
  using assms
  by (auto simp add: detect_platform_def download_media_def unsupported_url_def truthy_def io_defs)

theorem unknown_platform_aborts_witness:
  "urlparse (offline\<lparr>sniff := \<lambda>u. Inr (Sniff_meta False False)\<rparr>) ''https://example.com/clip''
     = Inr \<lparr>netloc = ''example.com'', path = ''/clip''\<rparr>
   \<and> \<not> str_in ''facebook.com'' (lower ''example.com'')
   \<and> \<not> str_in ''youtube.com'' (lower ''example.com'')
   \<and> \<not> str_in ''youtu.be'' (lower ''example.com'')
   \<and> snd (detect_platform (offline\<lparr>sniff := \<lambda>u. Inr (Sniff_meta False False)\<rparr>)
              ''https://example.com/clip'') = Inr None
   \<and> snd (download_media (offline\<lparr>sniff := \<lambda>u. Inr (Sniff_meta False False)\<rparr>)
              ''https://example.com/clip'') = Inr None
   \<and> filter strategy_event
        (fst (download_media (offline\<lparr>sniff := \<lambda>u. Inr (Sniff_meta False False)\<rparr>)
                ''https://example.com/clip'')) = []"
  using unknown_platform_aborts
    [of "offline\<lparr>sniff := \<lambda>u. Inr (Sniff_meta False False)\<rparr>" "''https://example.com/clip''"
        "\<lparr>netloc = ''example.com'', path = ''/clip''\<rparr>"]
  by (simp add: env_simps)

text \<open>
  The claim as the specification states it fails where the rendering fails before the
  guarded block: the browser session is started outside the \<^verbatim>\<open>try\<close>, and an exception
  there leaves \<^verbatim>\<open>detect_platform\<close> and \<^verbatim>\<open>download_media\<close>.
\<close>

theorem unknown_platform_counterexample:
  "urlparse offline ''https://example.com/clip''
     = Inr \<lparr>netloc = ''example.com'', path = ''/clip''\<rparr>
   \<and> \<not> str_in ''facebook.com'' (lower ''example.com'')
   \<and> \<not> str_in ''youtube.com'' (lower ''example.com'')
   \<and> \<not> str_in ''youtu.be'' (lower ''example.com'')
   \<and> sniff offline ''https://example.com/clip'' = Inl (Raised ''browser not installed'')
   \<and> detect_platform offline ''https://example.com/clip''
       = ([Launch_sniff ''https://example.com/clip''], Inl (Raised ''browser not installed''))
   \<and> download_media offline ''https://example.com/clip''
       = ([Launch_sniff ''https://example.com/clip''], Inl (Raised ''browser not installed''))"
  by (simp add: download_media_def detect_platform_def io_defs env_simps)

text \<open>
  Claim C10. Whatever the collaborators answer, a value that \<^verbatim>\<open>detect_platform\<close> returns
  is \<^verbatim>\<open>"facebook"\<close>, \<^verbatim>\<open>"youtube"\<close> or \<^verbatim>\<open>None\<close>. \<^verbatim>\<open>download_media\<close> chooses its block by
  \<^const>\<open>branch_of\<close> that value, so the block of the generic platforms is never the one
  chosen.
\<close>

theorem detect_platform_tags:
  "download_media env url =
     io_bind (detect_platform env url) (\<lambda>platform.
       case branch_of platform of
         Unsupported \<Rightarrow> unsupported_url
       | Youtube \<Rightarrow> youtube_fetch env url
       | Facebook \<Rightarrow> facebook_branch env url
       | Generic \<Rightarrow> generic_scrape env url)
   \<and> (\<forall>t platform. detect_platform env url = (t, Inr platform) \<longrightarrow>
          platform \<in> {None, Some ''facebook'', Some ''youtube''}
          \<and> branch_of platform \<noteq> Generic)"
proof
  show "download_media env url =
     io_bind (detect_platform env url) (\<lambda>platform.
       case branch_of platform of
         Unsupported \<Rightarrow> unsupported_url
       | Youtube \<Rightarrow> youtube_fetch env url
       | Facebook \<Rightarrow> facebook_branch env url
       | Generic \<Rightarrow> generic_scrape env url)"
    unfolding download_media_def branch_of_def
    by (rule arg_cong [where f = "io_bind (detect_platform env url)"]) (auto simp: fun_eq_iff)
next
  show "\<forall>t platform. detect_platform env url = (t, Inr platform) \<longrightarrow>
          platform \<in> {None, Some ''facebook'', Some ''youtube''}
          \<and> branch_of platform \<noteq> Generic"
    by (auto simp add: detect_platform_def branch_of_def truthy_def io_defs Let_def
        split: sum.splits sniffed.splits if_splits)
qed

theorem detect_platform_tags_witness:
  "detect_platform (offline\<lparr>sniff := \<lambda>u. Inr (Sniff_meta False True)\<rparr>)
       ''https://example.com/clip''
     = ([Launch_sniff ''https://example.com/clip''], Inr (Some ''youtube''))
   \<and> Some ''youtube'' \<in> {None, Some ''facebook'', Some ''youtube''}
   \<and> branch_of (Some ''youtube'') \<noteq> Generic"
proof -
  have run: "detect_platform (offline\<lparr>sniff := \<lambda>u. Inr (Sniff_meta False True)\<rparr>)
       ''https://example.com/clip''
     = ([Launch_sniff ''https://example.com/clip''], Inr (Some ''youtube''))"
    by (simp add: detect_platform_def io_defs env_simps)
  from detect_platform_tags
    [of "offline\<lparr>sniff := \<lambda>u. Inr (Sniff_meta False True)\<rparr>" "''https://example.com/clip''"]
    run
  show ?thesis by simp
qed

section \<open>Deduplication\<close>

lemma set_first_occurrences: "set (first_occurrences xs) = set xs"
  by (induction xs rule: first_occurrences.induct) auto

lemma distinct_first_occurrences: "distinct (first_occurrences xs)"
  by (induction xs rule: first_occurrences.induct) (auto simp: set_first_occurrences)

lemma dedup_loop_first_occurrences:
  "dedup_loop ms (set acc) acc = acc @ first_occurrences (filter (\<lambda>m. m \<notin> set acc) ms)"
proof (induction ms arbitrary: acc)
  case Nil
  show ?case by simp
next
  case (Cons m ms)
  show ?case
  proof (cases "m \<in> set acc")
    case True
    then show ?thesis using Cons.IH [of acc] by simp
  next
    case False
    have "removeAll m (filter (\<lambda>x. x \<notin> set acc) ms) = filter (\<lambda>x. x \<notin> set (acc @ [m])) ms"
      by (induction ms) auto
    with False show ?thesis using Cons.IH [of "acc @ [m]"] by simp
  qed
qed

text \<open>
  Claim C6. The deduplication loop of \<^verbatim>\<open>scrape_media_urls\<close> keeps, of any list of
  collected links, every string once at the place of its first occurrence: the result
  has no duplicates and the same elements, in first-seen order; the input
  \<^verbatim>\<open>[A, B, A, C, B]\<close> yields \<^verbatim>\<open>[A, B, C]\<close>.
\<close>

theorem dedup_first_occurrence:
  "dedup ms = first_occurrences ms
   \<and> distinct (dedup ms)
   \<and> set (dedup ms) = set ms
   \<and> dedup [''A'', ''B'', ''A'', ''C'', ''B''] = [''A'', ''B'', ''C'']"
proof -
  have eq: "dedup xs = first_occurrences xs" for xs :: "string list"
    using dedup_loop_first_occurrences [of xs "[]"] by (simp add: dedup_def)
  show ?thesis
    by (simp add: eq distinct_first_occurrences set_first_occurrences)
qed

section \<open>The photo index\<close>

lemma split_on_not_Nil: "split_on c s \<noteq> []"
  by (induction s) (auto split: list.splits)

lemma split_on_append: "split_on c (p @ c # s) = split_on c p @ split_on c s"
  by (induction p) (auto split: list.splits simp: split_on_not_Nil)

lemma split_on_single: "c \<notin> set s \<Longrightarrow> split_on c s = [s]"
  by (induction s) auto

lemma last_split_on_append:
  assumes "c \<notin> set s"
  shows "last (split_on c (p @ c # s)) = s"
  using assms by (simp add: split_on_append split_on_single)

lemma photo_component:
  assumes "CHR ''/'' \<notin> set seg"
  shows "''photo'' \<in> set (split_on CHR ''/'' (pre @ ''/photo/'' @ seg))"
proof -
  have "split_on CHR ''/'' (pre @ ''/photo/'' @ seg)
      = split_on CHR ''/'' pre @ split_on CHR ''/'' (''photo'' @ CHR ''/'' # seg)"
    using split_on_append [of "CHR ''/''" pre "''photo/'' @ seg"] by simp
  also have "split_on CHR ''/'' (''photo'' @ CHR ''/'' # seg) = [''photo'', seg]"
    using assms by (simp only: split_on_append) (simp add: split_on_single)
  finally show ?thesis by simp
qed

lemma last_photo_segment:
  assumes "CHR ''/'' \<notin> set seg"
  shows "last (split_on CHR ''/'' (pre @ ''/photo/'' @ seg)) = seg"
  using last_split_on_append [of "CHR ''/''" seg "pre @ ''/photo''"] assms by simp

lemma strip_by_id:
  assumes "s \<noteq> []" and "\<not> sp (hd s)" and "\<not> sp (last s)"
  shows "strip_by sp s = s"
proof -
  have "dropWhile sp s = s"
    using assms(1,2) by (cases s) simp_all
  moreover have "dropWhile sp (rev s) = rev s"
    using assms(1,3) by (cases "rev s") (simp_all add: hd_rev [symmetric])
  ultimately show ?thesis
    by (simp add: strip_by_def)
qed

lemma digit_plain:
  assumes "digit_val c \<noteq> None"
  shows "\<not> is_space c" and "c \<noteq> CHR ''-''" and "c \<noteq> CHR ''+''" and "c \<noteq> CHR ''_''"
  using assms by (auto simp add: digit_val_def is_space_def)

lemma py_int_too_long:
  assumes digits: "\<forall>c\<in>set seg. digit_val c \<noteq> None"
    and long: "max_str_digits < length seg"
  shows "py_int seg = None"
proof -
  from long obtain c cs where seg: "seg = c # cs"
    by (cases seg) simp_all
  have c: "digit_val c \<noteq> None"
    using digits seg by simp
  have "digit_val (last seg) \<noteq> None"
    using digits seg by (metis last_in_set list.discI)
  then have "strip_by is_space seg = seg"
    using c seg digit_plain(1) by (intro strip_by_id) simp_all
  moreover have "filter (\<lambda>d. d \<noteq> CHR ''_'') seg = seg"
    using digits digit_plain(4) by (auto simp add: filter_id_conv)
  ultimately show ?thesis
    using c long digit_plain(2,3) [OF c] seg
    by (simp add: py_int_def parse_unsigned_def)
qed

text \<open>
  Claim C4, as amended. When the path has a \<^verbatim>\<open>photo\<close> component, \<^verbatim>\<open>get_photo_index\<close>
  returns the value that \<^verbatim>\<open>int()\<close> reads from the last segment of the path (what follows
  the final slash), and 1 when \<^verbatim>\<open>int()\<close> refuses that segment: an empty one, one that is
  not numeric, one of more than 4300 digits. Without a \<^verbatim>\<open>photo\<close> component it returns 1.
  Where the path ends in \<^verbatim>\<open>/photo/\<close> and one more segment, the last segment is the one
  that follows \<^verbatim>\<open>photo\<close>, as the specification has it.
\<close>

theorem get_photo_index_last_segment:
  assumes "urlparse env url = Inr parsed"
  shows "get_photo_index env url =
           ([], Inr (if ''photo'' \<in> set (split_on CHR ''/'' (path parsed))
                     then (case py_int (basename (path parsed)) of Some n \<Rightarrow> n | None \<Rightarrow> 1)
                     else 1))
    \<and> (path parsed = pre @ ''/photo/'' @ seg \<and> CHR ''/'' \<notin> set seg \<longrightarrow>
         get_photo_index env url = ([], Inr (case py_int seg of Some n \<Rightarrow> n | None \<Rightarrow> 1)))
    \<and> (path parsed = pre @ ''/photo/'' @ seg \<and> (\<forall>c\<in>set seg. digit_val c \<noteq> None)
         \<and> max_str_digits < length seg \<longrightarrow>
         get_photo_index env url = ([], Inr 1))"
proof -
  have general: "get_photo_index env url =
           ([], Inr (if ''photo'' \<in> set (split_on CHR ''/'' (path parsed))
                     then (case py_int (basename (path parsed)) of Some n \<Rightarrow> n | None \<Rightarrow> 1)
                     else 1))"
    using assms
    by (simp add: get_photo_index_def basename_def io_defs Let_def split: option.splits)
  have after_photo:
    "get_photo_index env url = ([], Inr (case py_int seg of Some n \<Rightarrow> n | None \<Rightarrow> 1))"
    if shape: "path parsed = pre @ ''/photo/'' @ seg" and seg: "CHR ''/'' \<notin> set seg"
  proof -
    have "''photo'' \<in> set (split_on CHR ''/'' (path parsed))"
      unfolding shape by (rule photo_component [OF seg])
    moreover have "basename (path parsed) = seg"
      unfolding shape basename_def by (rule last_photo_segment [OF seg])
    ultimately show ?thesis
      by (simp only: general if_True)
  qed
  have too_long: "get_photo_index env url = ([], Inr 1)"
    if shape: "path parsed = pre @ ''/photo/'' @ seg"
      and digits: "\<forall>c\<in>set seg. digit_val c \<noteq> None"
      and long: "max_str_digits < length seg"
  proof -
    have "digit_val CHR ''/'' = None"
      by (simp add: digit_val_def)
    with digits have seg: "CHR ''/'' \<notin> set seg"
      by auto
    show ?thesis
      using after_photo [OF shape seg] py_int_too_long [OF digits long] by simp
  qed
  from general after_photo too_long show ?thesis by blast
qed

text \<open>
  The claim as the specification states it fails where the segment after \<^verbatim>\<open>photo\<close> is
  not the last one: with a trailing slash the last segment is empty, and the index 3 of
  the URL is read as 1.
\<close>

theorem photo_index_counterexample:
  "urlparse offline ''https://www.facebook.com/photo/3/''
     = Inr \<lparr>netloc = ''www.facebook.com'', path = ''/photo/3/''\<rparr>
   \<and> split_on CHR ''/'' ''/photo/3/'' = ['''', ''photo'', ''3'', '''']
   \<and> photo_index_spec ''/photo/3/'' = 3
   \<and> get_photo_index offline ''https://www.facebook.com/photo/3/'' = ([], Inr 1)"
  by (simp add: get_photo_index_def photo_index_spec_def io_defs env_simps int_simps)

theorem get_photo_index_last_segment_witness:
  "urlparse offline ''https://www.facebook.com/page/photo/3''
     = Inr \<lparr>netloc = ''www.facebook.com'', path = ''/page/photo/3''\<rparr>
   \<and> ''/page/photo/3'' = ''/page'' @ ''/photo/'' @ ''3'' \<and> CHR ''/'' \<notin> set ''3''
   \<and> get_photo_index offline ''https://www.facebook.com/page/photo/3'' = ([], Inr 3)"
proof -
  have parsed: "urlparse offline ''https://www.facebook.com/page/photo/3''
     = Inr \<lparr>netloc = ''www.facebook.com'', path = ''/page/photo/3''\<rparr>"
    by (simp add: env_simps)
  have three: "py_int ''3'' = Some 3"
    by (simp add: int_simps)
  have "get_photo_index offline ''https://www.facebook.com/page/photo/3'' = ([], Inr 3)"
    using get_photo_index_last_segment
      [OF parsed, of "''/page''" "''3''", THEN conjunct2, THEN conjunct1] three
    by simp
  with parsed show ?thesis by simp
qed

section \<open>The video fetcher\<close>

lemma py_max_Max: "py_max nums = Max (set nums)" if "nums \<noteq> []"
proof (cases nums)
  case Nil
  with that show ?thesis by simp
next
  case (Cons a list)
  show ?thesis
    using Max.set_eq_fold [of a list] by (simp add: py_max_def Cons)
qed

text \<open>
  Claim C3, as amended. The file that \<^verbatim>\<open>download_with_ytdlp\<close> returns is named
  \<^verbatim>\<open>{domain}_{N}.{ext}\<close>, where \<^verbatim>\<open>domain\<close> is the last but one of the labels of the
  lower-cased network location (\<^verbatim>\<open>facebook\<close> for \<^verbatim>\<open>www.facebook.com\<close>, \<^verbatim>\<open>youtube\<close> for
  \<^verbatim>\<open>www.youtube.com\<close>, \<^verbatim>\<open>youtu\<close> for \<^verbatim>\<open>youtu.be\<close>), \<^verbatim>\<open>N\<close> is one more than the greatest
  numeric index among the entries of the destination directory that match
  \<^verbatim>\<open>{domain}_*\<close>, and 1 when there is none; with \<^verbatim>\<open>facebook_1.mp4\<close> and
  \<^verbatim>\<open>facebook_3.mp4\<close> there, the next Facebook fetch is \<^verbatim>\<open>facebook_4.mp4\<close>.
\<close>

theorem ytdlp_numbered_name:
  assumes "urlparse env url = Inr parsed"
    and "labels = split_on CHR ''.'' (lower (netloc parsed))"
    and "2 \<le> length labels"
    and "domain = labels ! (length labels - 2)"
    and "nums = file_nums (glob env save_dir (domain @ ''_*''))"
    and "n = (if nums = [] then 1 else Max (set nums) + 1)"
    and "ytdlp env url (path_join save_dir (domain @ ''_'' @ str_int n @ ''.%(ext)s'')) = Inr info_ext"
    and "ext = (case info_ext of Some e \<Rightarrow> e | None \<Rightarrow> ''mp4'')"
  shows "snd (download_with_ytdlp env url save_dir) =
           Inr (path_join save_dir (domain @ ''_'' @ str_int n @ ''.'' @ ext))"
proof (cases "nums = []")
  case True
  with assms show ?thesis
    by (simp add: download_with_ytdlp_def io_defs Let_def)
next
  case False
  then have "glob env save_dir (domain @ ''_*'') \<noteq> []"
    using assms(5) by (auto simp add: file_nums_def map_filter_simps)
  with False assms py_max_Max [OF False] show ?thesis
    by (simp add: download_with_ytdlp_def io_defs Let_def)
qed

theorem ytdlp_numbered_name_witness:
  "urlparse (fetching [''facebook_1.mp4'', ''facebook_3.mp4'', ''youtube_9.mp4''])
       ''https://www.facebook.com/watch/?v=1''
     = Inr \<lparr>netloc = ''www.facebook.com'', path = ''/watch/''\<rparr>
   \<and> split_on CHR ''.'' (lower ''www.facebook.com'') = [''www'', ''facebook'', ''com'']
   \<and> glob (fetching [''facebook_1.mp4'', ''facebook_3.mp4'', ''youtube_9.mp4''])
         VIDEO_DIR ''facebook_*'' = [''facebook_1.mp4'', ''facebook_3.mp4'']
   \<and> file_nums [''facebook_1.mp4'', ''facebook_3.mp4''] = [1, 3]
   \<and> snd (download_with_ytdlp (fetching [''facebook_1.mp4'', ''facebook_3.mp4'', ''youtube_9.mp4''])
              ''https://www.facebook.com/watch/?v=1'' VIDEO_DIR)
       = Inr ''data/videos/facebook_4.mp4''"
proof -
  define env where "env = fetching [''facebook_1.mp4'', ''facebook_3.mp4'', ''youtube_9.mp4'']"
  have parsed: "urlparse env ''https://www.facebook.com/watch/?v=1''
     = Inr \<lparr>netloc = ''www.facebook.com'', path = ''/watch/''\<rparr>"
    by (simp add: env_def fetching_def env_simps)
  have labels: "split_on CHR ''.'' (lower ''www.facebook.com'') = [''www'', ''facebook'', ''com'']"
    by (simp add: env_simps)
  have files: "glob env VIDEO_DIR ''facebook_*'' = [''facebook_1.mp4'', ''facebook_3.mp4'']"
    by (simp add: env_def fetching_def offline_def listing_glob_def)
  have nums: "file_nums [''facebook_1.mp4'', ''facebook_3.mp4''] = [1, 3]"
    by (simp add: name_simps)
  have fetched: "ytdlp env u template = Inr (Some ''mp4'')" for u template
    by (simp add: env_def fetching_def offline_def)
  have "snd (download_with_ytdlp env ''https://www.facebook.com/watch/?v=1'' VIDEO_DIR)
       = Inr (path_join VIDEO_DIR (''facebook'' @ ''_'' @ str_int 4 @ ''.'' @ ''mp4''))"
    by (rule ytdlp_numbered_name
          [where parsed = "\<lparr>netloc = ''www.facebook.com'', path = ''/watch/''\<rparr>"
             and labels = "[''www'', ''facebook'', ''com'']" and nums = "[1, 3]"
             and info_ext = "Some ''mp4''"])
       (simp_all add: parsed labels files nums fetched)
  then have "snd (download_with_ytdlp env ''https://www.facebook.com/watch/?v=1'' VIDEO_DIR)
       = Inr ''data/videos/facebook_4.mp4''"
    by (simp add: name_simps)
  with parsed labels files nums show ?thesis
    unfolding env_def by simp
qed

text \<open>
  The claim as the specification states it fails for the \<^verbatim>\<open>youtu.be\<close> host: the platform
  is \<^verbatim>\<open>youtube\<close>, and the file is named after the label \<^verbatim>\<open>youtu\<close>.
\<close>

theorem youtu_be_counterexample:
  "urlparse (fetching []) ''https://youtu.be/abc'' = Inr \<lparr>netloc = ''youtu.be'', path = ''/abc''\<rparr>
   \<and> snd (detect_platform (fetching []) ''https://youtu.be/abc'') = Inr (Some ''youtube'')
   \<and> snd (download_with_ytdlp (fetching []) ''https://youtu.be/abc'' VIDEO_DIR)
       = Inr ''data/videos/youtu_1.mp4''
   \<and> snd (download_media (fetching []) ''https://youtu.be/abc'') = Inr (Some ''data/videos/youtu_1.mp4'')"
  by (simp add: download_media_def youtube_fetch_def detect_platform_def truthy_def download_with_ytdlp_def io_defs env_simps name_simps fetching_def py_max_def)

text \<open>
  Claim C2 does not hold of the code. On a YouTube URL and an empty directory the
  template handed to the video fetcher is the final numbered name, not the temporary
  one, and nothing is renamed.
\<close>

theorem outtmpl_is_final_name:
  "download_with_ytdlp (fetching []) ''https://www.youtube.com/watch?v=abc'' VIDEO_DIR =
     ([Mkdir ''data/videos'',
       Ytdlp ''https://www.youtube.com/watch?v=abc'' ''data/videos/youtube_1.%(ext)s''],
      Inr ''data/videos/youtube_1.mp4'')"
  by (simp add: download_with_ytdlp_def io_defs env_simps name_simps fetching_def py_max_def)

section \<open>The Facebook branch\<close>

text \<open>
  Claim C1 does not hold of the code. On a Facebook photo page whose only scraped link
  is classified neither as video nor as image, \<^verbatim>\<open>download_media\<close> raises
  \<^verbatim>\<open>UnboundLocalError\<close> where the claim has it return \<^verbatim>\<open>None\<close>.
\<close>

theorem unclassified_candidates_raise:
  "download_media (browsing [] [''https://scontent.fbcdn.net/v/blob''])
       ''https://www.facebook.com/page/photo/3'' =
     ([Print ''[DEBUG] Detected platform by domain: Facebook'',
       Launch_scrape ''https://www.facebook.com/page/photo/3'',
       Print_links [''https://scontent.fbcdn.net/v/blob''],
       Head ''https://scontent.fbcdn.net/v/blob'',
       Head ''https://scontent.fbcdn.net/v/blob''],
      Inl UnboundLocalError)"
  by (simp add: download_media_def facebook_branch_def facebook_scrape_def video_shaped_def
      detect_platform_def browsing_def io_defs env_simps media_simps scrape_simps Let_def)

lemma is_type_result:
  assumes "snd (get_media_type_from_url env m) = Inr k"
  shows "is_type env kind m = (fst (get_media_type_from_url env m), Inr (k = Some kind))"
  using assms by (cases "get_media_type_from_url env m") (simp add: is_type_def io_defs)

lemma io_filter_classified:
  assumes "\<forall>m\<in>set links. \<exists>k. snd (get_media_type_from_url env m) = Inr k"
  shows "io_filter (is_type env kind) links =
           (concat (map (\<lambda>m. fst (get_media_type_from_url env m)) links),
            Inr (filter (\<lambda>m. snd (get_media_type_from_url env m) = Inr (Some kind)) links))"
  using assms
proof (induction links)
  case Nil
  show ?case by (simp add: io_return_def)
next
  case (Cons m links)
  then obtain k where k: "snd (get_media_type_from_url env m) = Inr k" by auto
  from Cons have rest: "io_filter (is_type env kind) links =
           (concat (map (\<lambda>m. fst (get_media_type_from_url env m)) links),
            Inr (filter (\<lambda>m. snd (get_media_type_from_url env m) = Inr (Some kind)) links))"
    by simp
  show ?case
    by (simp add: is_type_result [OF k] rest k io_defs)
qed

lemma no_get_classify: "filter is_get (fst (get_media_type_from_url env m)) = []"
  by (simp add: get_media_type_from_url_def head_content_type_def io_defs Let_def
      split: sum.splits)

lemma no_get_classify_all:
  "filter is_get (concat (map (\<lambda>m. fst (get_media_type_from_url env m)) links)) = []"
  by (induction links) (simp_all add: no_get_classify)

lemma no_get_detect: "filter is_get (fst (detect_platform env url)) = []"
  by (simp add: detect_platform_def io_defs Let_def split: sum.splits sniffed.splits)

lemma no_get_scrape: "filter is_get (fst (scrape_media_urls env url)) = []"
  by (simp add: scrape_media_urls_def collect_media_def io_defs Let_def
      split: sum.splits option.splits prod.splits)

lemma no_get_ytdlp: "filter is_get (fst (download_with_ytdlp env url d)) = []"
  by (simp add: download_with_ytdlp_def io_defs Let_def split: sum.splits option.splits)

lemma io_after_parts: "fst (io_after t m) = t @ fst m" "snd (io_after t m) = snd m"
  by (simp_all add: io_after_def)

lemma no_get_bind:
  assumes "filter is_get (fst m) = []" and "\<And>x. filter is_get (fst (f x)) = []"
  shows "filter is_get (fst (io_bind m f)) = []"
proof (cases m)
  case (Pair t r)
  with assms show ?thesis
    by (cases r) (simp_all add: io_bind_def case_prod_unfold)
qed

lemma no_get_is_type: "filter is_get (fst (is_type env kind m)) = []"
  unfolding is_type_def
  by (rule no_get_bind) (simp_all add: no_get_classify io_return_def)

lemma no_get_io_filter: "filter is_get (fst (io_filter (is_type env kind) links)) = []"
proof (induction links)
  case Nil
  show ?case by (simp add: io_return_def)
next
  case (Cons m links)
  show ?case
    unfolding io_filter.simps
    by (intro no_get_bind no_get_is_type Cons.IH) (simp add: io_return_def)
qed

lemma no_get_partition: "filter is_get (partition_trace env url links) = []"
  by (simp add: partition_trace_def no_get_detect no_get_scrape no_get_io_filter)

lemma download_saved:
  assumes "snd (download_with_requests env u d) = Inr (Some f)"
  shows "filter is_get (fst (download_with_requests env u d)) = [Get u f]"
  using assms
  by (auto simp add: download_with_requests_def head_content_type_def io_defs Let_def
      split: sum.splits option.splits if_splits)

lemma after_saved:
  assumes run: "call = io_after t (download_with_requests env u d)"
    and quiet: "filter is_get t = []"
    and saved: "snd (download_with_requests env u d) = Inr (Some f)"
  shows "snd call = Inr (Some f) \<and> filter is_get (fst call) = [Get u f]"
  by (simp add: run io_after_parts quiet saved download_saved [OF saved])

lemma io_filter_Nil_result:
  assumes "snd (io_filter p links) = Inr ys" and "ys \<noteq> []"
  shows "links \<noteq> []"
  using assms by (cases links) (auto simp add: io_return_def)

lemma photo_3: 
  assumes "urlparse env url = Inr parsed" and "path parsed = pre @ ''/photo/3''"
  shows "get_photo_index env url = ([], Inr 3)"
proof -
  have seg: "CHR ''/'' \<notin> set ''3''" by simp
  have shape: "path parsed = pre @ ''/photo/'' @ ''3''" using assms(2) by simp
  have "''photo'' \<in> set (split_on CHR ''/'' (path parsed))"
    unfolding shape by (rule photo_component [OF seg])
  moreover have "last (split_on CHR ''/'' (path parsed)) = ''3''"
    unfolding shape by (rule last_photo_segment [OF seg])
  moreover have "py_int ''3'' = Some 3" by (simp add: int_simps)
  ultimately show ?thesis
    using assms(1) by (simp add: get_photo_index_def io_defs Let_def)
qed

lemma facebook_photo_run:
  assumes "snd (detect_platform env url) = Inr (Some ''facebook'')"
    and "urlparse env url = Inr parsed"
    and "path parsed = pre @ ''/photo/3''"
    and "\<not> video_shaped (lower (path parsed)) url"
    and "snd (scrape_media_urls env url) = Inr links"
    and "snd (io_filter (is_type env ''video'') links) = Inr []"
    and "snd (io_filter (is_type env ''image'') links) = Inr imgs"
  shows "(2 < length imgs \<longrightarrow>
            download_media env url =
              io_after (partition_trace env url links)
                (download_with_requests env (imgs ! 2) IMAGE_DIR))
       \<and> (imgs \<noteq> [] \<and> length imgs \<le> 2 \<longrightarrow>
            download_media env url =
              io_after
                (partition_trace env url links
                 @ [Print ''[WARN] Requested photo index out of range, defaulting to first image.''])
                (download_with_requests env (imgs ! 0) IMAGE_DIR))"
proof -
  have scrape: "facebook_scrape env url =
      io_after (fst (scrape_media_urls env url) @ fst (io_filter (is_type env ''video'') links)
                @ fst (io_filter (is_type env ''image'') links))
        (if 2 < length imgs then download_with_requests env (imgs ! 2) IMAGE_DIR
         else io_after [Print ''[WARN] Requested photo index out of range, defaulting to first image.'']
                (download_with_requests env (imgs ! 0) IMAGE_DIR))"
    if "imgs \<noteq> []"
  proof -
    have links: "links \<noteq> []"
      using io_filter_Nil_result [OF assms(7) that] .
    show ?thesis
      unfolding facebook_scrape_def
      by (simp add: io_bind_after [OF assms(5)] io_bind_after [OF assms(6)]
          io_bind_after [OF assms(7)] links that photo_3 [OF assms(2,3)]
          io_return_bind io_print_after io_after_after io_lift_bind)
         (simp add: io_defs case_prod_unfold)
  qed
  have media: "download_media env url = io_after (fst (detect_platform env url)) (facebook_scrape env url)"
    unfolding download_media_def
    by (simp add: io_bind_after [OF assms(1)] truthy_def facebook_branch_def assms(2,4) io_lift_bind)
  show ?thesis
  proof (intro conjI impI)
    assume long: "2 < length imgs"
    then have "imgs \<noteq> []" by auto
    from scrape [OF this] long show "download_media env url =
              io_after (partition_trace env url links)
                (download_with_requests env (imgs ! 2) IMAGE_DIR)"
      by (simp add: media io_after_after partition_trace_def)
  next
    assume short: "imgs \<noteq> [] \<and> length imgs \<le> 2"
    then have "imgs \<noteq> []" by simp
    from scrape [OF this] short show "download_media env url =
              io_after
                (partition_trace env url links
                 @ [Print ''[WARN] Requested photo index out of range, defaulting to first image.''])
                (download_with_requests env (imgs ! 0) IMAGE_DIR)"
      by (simp add: media io_after_after partition_trace_def)
  qed
qed

text \<open>
  Claim C5, as amended. On a Facebook URL of the photo shape whose path ends in
  \<^verbatim>\<open>/photo/3\<close>, with no video among the candidates: when there are more than two image
  candidates (five in the claim), \<^verbatim>\<open>download_media\<close> goes on to the generic download of
  the image at index 2; when there are one or two (one in the claim), it prints the
  warning and goes on to the generic download of the image at index 0. In both cases,
  when that download succeeds, \<^verbatim>\<open>download_media\<close> makes one GET only, of the chosen
  candidate, and returns the file it was saved to.
\<close>

theorem photo_index_selection:
  assumes "snd (detect_platform env url) = Inr (Some ''facebook'')"
    and "urlparse env url = Inr parsed"
    and "path parsed = pre @ ''/photo/3''"
    and "\<not> video_shaped (lower (path parsed)) url"
    and "snd (scrape_media_urls env url) = Inr links"
    and "snd (io_filter (is_type env ''video'') links) = Inr []"
    and "snd (io_filter (is_type env ''image'') links) = Inr imgs"
  shows "(2 < length imgs \<longrightarrow>
            download_media env url =
              io_after (partition_trace env url links)
                (download_with_requests env (imgs ! 2) IMAGE_DIR)
            \<and> (\<forall>f. snd (download_with_requests env (imgs ! 2) IMAGE_DIR) = Inr (Some f) \<longrightarrow>
                   snd (download_media env url) = Inr (Some f)
                   \<and> filter is_get (fst (download_media env url)) = [Get (imgs ! 2) f]))
       \<and> (imgs \<noteq> [] \<and> length imgs \<le> 2 \<longrightarrow>
            download_media env url =
              io_after
                (partition_trace env url links
                 @ [Print ''[WARN] Requested photo index out of range, defaulting to first image.''])
                (download_with_requests env (imgs ! 0) IMAGE_DIR)
            \<and> (\<forall>f. snd (download_with_requests env (imgs ! 0) IMAGE_DIR) = Inr (Some f) \<longrightarrow>
                   snd (download_media env url) = Inr (Some f)
                   \<and> filter is_get (fst (download_media env url)) = [Get (imgs ! 0) f]))"
proof (intro conjI impI allI)
  assume long: "2 < length imgs"
  show run: "download_media env url =
      io_after (partition_trace env url links) (download_with_requests env (imgs ! 2) IMAGE_DIR)"
    using facebook_photo_run [OF assms] long by blast
  fix f
  assume saved: "snd (download_with_requests env (imgs ! 2) IMAGE_DIR) = Inr (Some f)"
  from after_saved [OF run no_get_partition saved]
  show "snd (download_media env url) = Inr (Some f)"
    and "filter is_get (fst (download_media env url)) = [Get (imgs ! 2) f]"
    by simp_all
next
  assume short: "imgs \<noteq> [] \<and> length imgs \<le> 2"
  show run: "download_media env url =
      io_after
        (partition_trace env url links
         @ [Print ''[WARN] Requested photo index out of range, defaulting to first image.''])
        (download_with_requests env (imgs ! 0) IMAGE_DIR)"
    using facebook_photo_run [OF assms] short by blast
  have quiet: "filter is_get
      (partition_trace env url links
       @ [Print ''[WARN] Requested photo index out of range, defaulting to first image.'']) = []"
    by (simp add: no_get_partition)
  fix f
  assume saved: "snd (download_with_requests env (imgs ! 0) IMAGE_DIR) = Inr (Some f)"
  from after_saved [OF run quiet saved]
  show "snd (download_media env url) = Inr (Some f)"
    and "filter is_get (fst (download_media env url)) = [Get (imgs ! 0) f]"
    by simp_all
qed

theorem photo_index_selection_witness:
  "snd (detect_platform
          (browsing [] [''https://scontent.fbcdn.net/v/a.jpg'', ''https://scontent.fbcdn.net/v/b.jpg'',
                        ''https://scontent.fbcdn.net/v/c.jpg'', ''https://scontent.fbcdn.net/v/d.jpg'',
                        ''https://scontent.fbcdn.net/v/e.jpg''])
          ''https://www.facebook.com/page/photo/3'') = Inr (Some ''facebook'')
   \<and> \<not> video_shaped (lower ''/page/photo/3'') ''https://www.facebook.com/page/photo/3''
   \<and> download_media
         (browsing [] [''https://scontent.fbcdn.net/v/a.jpg'', ''https://scontent.fbcdn.net/v/b.jpg'',
                       ''https://scontent.fbcdn.net/v/c.jpg'', ''https://scontent.fbcdn.net/v/d.jpg'',
                       ''https://scontent.fbcdn.net/v/e.jpg''])
         ''https://www.facebook.com/page/photo/3''
       = io_after
           (partition_trace
              (browsing [] [''https://scontent.fbcdn.net/v/a.jpg'', ''https://scontent.fbcdn.net/v/b.jpg'',
                            ''https://scontent.fbcdn.net/v/c.jpg'', ''https://scontent.fbcdn.net/v/d.jpg'',
                            ''https://scontent.fbcdn.net/v/e.jpg''])
              ''https://www.facebook.com/page/photo/3''
              [''https://scontent.fbcdn.net/v/a.jpg'', ''https://scontent.fbcdn.net/v/b.jpg'',
               ''https://scontent.fbcdn.net/v/c.jpg'', ''https://scontent.fbcdn.net/v/d.jpg'',
               ''https://scontent.fbcdn.net/v/e.jpg''])
           (download_with_requests
              (browsing [] [''https://scontent.fbcdn.net/v/a.jpg'', ''https://scontent.fbcdn.net/v/b.jpg'',
                            ''https://scontent.fbcdn.net/v/c.jpg'', ''https://scontent.fbcdn.net/v/d.jpg'',
                            ''https://scontent.fbcdn.net/v/e.jpg''])
              ''https://scontent.fbcdn.net/v/c.jpg'' IMAGE_DIR)
   \<and> snd (download_with_requests
              (browsing [] [''https://scontent.fbcdn.net/v/a.jpg'', ''https://scontent.fbcdn.net/v/b.jpg'',
                            ''https://scontent.fbcdn.net/v/c.jpg'', ''https://scontent.fbcdn.net/v/d.jpg'',
                            ''https://scontent.fbcdn.net/v/e.jpg''])
              ''https://scontent.fbcdn.net/v/c.jpg'' IMAGE_DIR) = Inr (Some ''data/images/c.jpg'')
   \<and> snd (download_media
              (browsing [] [''https://scontent.fbcdn.net/v/a.jpg'', ''https://scontent.fbcdn.net/v/b.jpg'',
                            ''https://scontent.fbcdn.net/v/c.jpg'', ''https://scontent.fbcdn.net/v/d.jpg'',
                            ''https://scontent.fbcdn.net/v/e.jpg''])
              ''https://www.facebook.com/page/photo/3'') = Inr (Some ''data/images/c.jpg'')
   \<and> filter is_get
         (fst (download_media
                 (browsing [] [''https://scontent.fbcdn.net/v/a.jpg'', ''https://scontent.fbcdn.net/v/b.jpg'',
                               ''https://scontent.fbcdn.net/v/c.jpg'', ''https://scontent.fbcdn.net/v/d.jpg'',
                               ''https://scontent.fbcdn.net/v/e.jpg''])
                 ''https://www.facebook.com/page/photo/3''))
       = [Get ''https://scontent.fbcdn.net/v/c.jpg'' ''data/images/c.jpg'']
   \<and> download_media (browsing [] [''https://scontent.fbcdn.net/v/a.jpg''])
         ''https://www.facebook.com/page/photo/3''
       = io_after
           (partition_trace (browsing [] [''https://scontent.fbcdn.net/v/a.jpg''])
              ''https://www.facebook.com/page/photo/3'' [''https://scontent.fbcdn.net/v/a.jpg'']
            @ [Print ''[WARN] Requested photo index out of range, defaulting to first image.''])
           (download_with_requests (browsing [] [''https://scontent.fbcdn.net/v/a.jpg''])
              ''https://scontent.fbcdn.net/v/a.jpg'' IMAGE_DIR)
   \<and> snd (download_with_requests (browsing [] [''https://scontent.fbcdn.net/v/a.jpg''])
              ''https://scontent.fbcdn.net/v/a.jpg'' IMAGE_DIR) = Inr (Some ''data/images/a.jpg'')
   \<and> snd (download_media (browsing [] [''https://scontent.fbcdn.net/v/a.jpg''])
              ''https://www.facebook.com/page/photo/3'') = Inr (Some ''data/images/a.jpg'')
   \<and> filter is_get
         (fst (download_media (browsing [] [''https://scontent.fbcdn.net/v/a.jpg''])
                 ''https://www.facebook.com/page/photo/3''))
       = [Get ''https://scontent.fbcdn.net/v/a.jpg'' ''data/images/a.jpg'']"
proof -
  define imgs where "imgs = [''https://scontent.fbcdn.net/v/a.jpg'', ''https://scontent.fbcdn.net/v/b.jpg'',
      ''https://scontent.fbcdn.net/v/c.jpg'', ''https://scontent.fbcdn.net/v/d.jpg'',
      ''https://scontent.fbcdn.net/v/e.jpg'']"
  define url where "url = ''https://www.facebook.com/page/photo/3''"
  have detect: "snd (detect_platform (browsing [] xs) url) = Inr (Some ''facebook'')" for xs
    by (simp add: url_def detect_platform_def browsing_def io_defs env_simps)
  have parsed: "urlparse (browsing [] xs) url
                  = Inr \<lparr>netloc = ''www.facebook.com'', path = ''/page/photo/3''\<rparr>" for xs
    by (simp add: url_def browsing_def env_simps)
  have shape: "path \<lparr>netloc = ''www.facebook.com'', path = ''/page/photo/3''\<rparr> = ''/page'' @ ''/photo/3''"
    by simp
  have photo: "\<not> video_shaped (lower ''/page/photo/3'') url"
    by (simp add: url_def video_shaped_def env_simps)
  then have photo': "\<not> video_shaped (lower (path \<lparr>netloc = ''www.facebook.com'', path = ''/page/photo/3''\<rparr>)) url"
    by simp
  have scraped: "snd (scrape_media_urls (browsing [] imgs) url) = Inr imgs"
    by (simp add: imgs_def browsing_def offline_def io_defs scrape_simps truthy_def Let_def)
  have scraped1: "snd (scrape_media_urls (browsing [] [''https://scontent.fbcdn.net/v/a.jpg'']) url)
                    = Inr [''https://scontent.fbcdn.net/v/a.jpg'']"
    by (simp add: browsing_def offline_def io_defs scrape_simps truthy_def Let_def)
  have kinds: "\<forall>m\<in>set imgs. get_media_type_from_url (browsing [] xs) m
                 = ([Head m], Inr (Some ''image''))" for xs
    unfolding imgs_def
    by (simp add: browsing_def io_defs env_simps media_simps Let_def)
  then have kind: "get_media_type_from_url (browsing [] xs) m = ([Head m], Inr (Some ''image''))"
    if "m \<in> set imgs" for m xs
    using that by blast
  have classified: "\<forall>m\<in>set ys. \<exists>k. snd (get_media_type_from_url (browsing [] xs) m) = Inr k"
    if "set ys \<subseteq> set imgs" for xs ys
    using that kind by auto
  have no_videos: "snd (io_filter (is_type (browsing [] xs) ''video'') ys) = Inr []"
    if "set ys \<subseteq> set imgs" for xs ys
  proof -
    have "filter (\<lambda>m. snd (get_media_type_from_url (browsing [] xs) m) = Inr (Some ''video'')) ys = []"
      using that by (auto simp add: filter_empty_conv kind)
    then show ?thesis
      by (simp add: io_filter_classified [OF classified [OF that]])
  qed
  have images: "snd (io_filter (is_type (browsing [] xs) ''image'') ys) = Inr ys"
    if "set ys \<subseteq> set imgs" for xs ys
  proof -
    have "filter (\<lambda>m. snd (get_media_type_from_url (browsing [] xs) m) = Inr (Some ''image'')) ys = ys"
      using that by (auto simp add: filter_id_conv kind)
    then show ?thesis
      by (simp add: io_filter_classified [OF classified [OF that]])
  qed
  have sub1: "set [''https://scontent.fbcdn.net/v/a.jpg''] \<subseteq> set imgs"
    by (simp add: imgs_def)
  note no_videos1 = no_videos [OF sub1]
  note images1 = images [OF sub1]
  have third: "imgs ! 2 = ''https://scontent.fbcdn.net/v/c.jpg''"
    by (simp add: imgs_def)
  have first: "[''https://scontent.fbcdn.net/v/a.jpg''] ! 0 = ''https://scontent.fbcdn.net/v/a.jpg''"
    by simp
  have c: "snd (download_with_requests (browsing [] xs) ''https://scontent.fbcdn.net/v/c.jpg'' IMAGE_DIR)
       = Inr (Some ''data/images/c.jpg'')" for xs
    by (simp add: download_with_requests_def browsing_def io_defs env_simps basename_def Let_def
        path_join_def IMAGE_DIR_def)
  have a: "snd (download_with_requests (browsing [] xs) ''https://scontent.fbcdn.net/v/a.jpg'' IMAGE_DIR)
       = Inr (Some ''data/images/a.jpg'')" for xs
    by (simp add: download_with_requests_def browsing_def io_defs env_simps basename_def Let_def
        path_join_def IMAGE_DIR_def)
  have long: "2 < length imgs"
    by (simp add: imgs_def)
  have short: "[''https://scontent.fbcdn.net/v/a.jpg''] \<noteq> []
               \<and> length [''https://scontent.fbcdn.net/v/a.jpg''] \<le> 2"
    by simp
  note five_all = photo_index_selection
    [OF detect parsed shape photo' scraped no_videos [OF subset_refl] images [OF subset_refl],
      THEN conjunct1, THEN mp, OF long, unfolded third]
  note one_all = photo_index_selection
    [OF detect parsed shape photo' scraped1 no_videos1 images1,
      THEN conjunct2, THEN mp, OF short, unfolded first]
  note five = five_all [THEN conjunct1]
  note five_saved = five_all [THEN conjunct2, THEN spec, THEN mp, OF c]
  note one = one_all [THEN conjunct1]
  note one_saved = one_all [THEN conjunct2, THEN spec, THEN mp, OF a]
  note facts = detect [of imgs] photo five c [of imgs] five_saved [THEN conjunct1]
    five_saved [THEN conjunct2] one a [of "[''https://scontent.fbcdn.net/v/a.jpg'']"]
    one_saved [THEN conjunct1] one_saved [THEN conjunct2]
  show ?thesis
    by (intro conjI) (rule facts [unfolded imgs_def url_def])+
qed

text \<open>
  The claim as the specification states it fails where the download of the chosen
  candidate fails: with one image candidate and a GET that times out, the warning is
  printed, the image at index 0 is requested, and \<^verbatim>\<open>download_media\<close> returns \<^verbatim>\<open>None\<close>, not
  a file.
\<close>

theorem photo_fallback_counterexample:
  "snd (io_filter (is_type (stalled [] [''https://scontent.fbcdn.net/v/a.jpg'']) ''video'')
          [''https://scontent.fbcdn.net/v/a.jpg'']) = Inr []
   \<and> snd (io_filter (is_type (stalled [] [''https://scontent.fbcdn.net/v/a.jpg'']) ''image'')
          [''https://scontent.fbcdn.net/v/a.jpg'']) = Inr [''https://scontent.fbcdn.net/v/a.jpg'']
   \<and> download_media (stalled [] [''https://scontent.fbcdn.net/v/a.jpg''])
         ''https://www.facebook.com/page/photo/3''
       = ([Print ''[DEBUG] Detected platform by domain: Facebook'',
           Launch_scrape ''https://www.facebook.com/page/photo/3'',
           Print_links [''https://scontent.fbcdn.net/v/a.jpg''],
           Head ''https://scontent.fbcdn.net/v/a.jpg'',
           Head ''https://scontent.fbcdn.net/v/a.jpg'',
           Print ''[WARN] Requested photo index out of range, defaulting to first image.'',
           Mkdir ''data/images'',
           Get ''https://scontent.fbcdn.net/v/a.jpg'' ''data/images/a.jpg'',
           Print_exn ''[ERROR] Failed to download https://scontent.fbcdn.net/v/a.jpg: ''
             (Raised ''Read timed out'')],
          Inr None)"
proof -
  define env where "env = stalled [] [''https://scontent.fbcdn.net/v/a.jpg'']"
  have kind: "get_media_type_from_url env ''https://scontent.fbcdn.net/v/a.jpg''
                = ([Head ''https://scontent.fbcdn.net/v/a.jpg''], Inr (Some ''image''))"
    by (simp add: env_def stalled_def browsing_def io_defs env_simps media_simps Let_def)
  have videos: "io_filter (is_type env ''video'') [''https://scontent.fbcdn.net/v/a.jpg'']
                  = ([Head ''https://scontent.fbcdn.net/v/a.jpg''], Inr [])"
    by (simp add: is_type_def kind io_defs)
  have images: "io_filter (is_type env ''image'') [''https://scontent.fbcdn.net/v/a.jpg'']
                  = ([Head ''https://scontent.fbcdn.net/v/a.jpg''],
                     Inr [''https://scontent.fbcdn.net/v/a.jpg''])"
    by (simp add: is_type_def kind io_defs)
  have detect: "detect_platform env ''https://www.facebook.com/page/photo/3''
                  = ([Print ''[DEBUG] Detected platform by domain: Facebook''], Inr (Some ''facebook''))"
    by (simp add: env_def stalled_def browsing_def detect_platform_def io_defs env_simps)
  have parsed: "urlparse env ''https://www.facebook.com/page/photo/3''
                  = Inr \<lparr>netloc = ''www.facebook.com'', path = ''/page/photo/3''\<rparr>"
    by (simp add: env_def stalled_def browsing_def env_simps)
  have shape: "\<not> video_shaped (lower ''/page/photo/3'') ''https://www.facebook.com/page/photo/3''"
    by (simp add: video_shaped_def env_simps)
  have scraped: "scrape_media_urls env ''https://www.facebook.com/page/photo/3''
      = ([Launch_scrape ''https://www.facebook.com/page/photo/3'',
          Print_links [''https://scontent.fbcdn.net/v/a.jpg'']],
         Inr [''https://scontent.fbcdn.net/v/a.jpg''])"
    by (simp add: env_def stalled_def browsing_def offline_def io_defs scrape_simps truthy_def
        Let_def)
  have index: "get_photo_index env ''https://www.facebook.com/page/photo/3'' = ([], Inr 3)"
    by (rule photo_3 [OF parsed, of "''/page''"]) simp
  have download: "download_with_requests env ''https://scontent.fbcdn.net/v/a.jpg'' IMAGE_DIR
      = ([Mkdir ''data/images'',
          Get ''https://scontent.fbcdn.net/v/a.jpg'' ''data/images/a.jpg'',
          Print_exn ''[ERROR] Failed to download https://scontent.fbcdn.net/v/a.jpg: ''
            (Raised ''Read timed out'')],
         Inr None)"
    by (simp add: env_def stalled_def download_with_requests_def browsing_def io_defs env_simps
        basename_def Let_def path_join_def IMAGE_DIR_def)
  have "facebook_scrape env ''https://www.facebook.com/page/photo/3''
      = ([Launch_scrape ''https://www.facebook.com/page/photo/3'',
          Print_links [''https://scontent.fbcdn.net/v/a.jpg''],
          Head ''https://scontent.fbcdn.net/v/a.jpg'',
          Head ''https://scontent.fbcdn.net/v/a.jpg'',
          Print ''[WARN] Requested photo index out of range, defaulting to first image.'',
          Mkdir ''data/images'',
          Get ''https://scontent.fbcdn.net/v/a.jpg'' ''data/images/a.jpg'',
          Print_exn ''[ERROR] Failed to download https://scontent.fbcdn.net/v/a.jpg: ''
            (Raised ''Read timed out'')],
         Inr None)"
    by (simp add: facebook_scrape_def scraped videos images index download io_defs
        del: io_filter.simps)
  then have run: "download_media env ''https://www.facebook.com/page/photo/3''
      = ([Print ''[DEBUG] Detected platform by domain: Facebook'',
          Launch_scrape ''https://www.facebook.com/page/photo/3'',
          Print_links [''https://scontent.fbcdn.net/v/a.jpg''],
          Head ''https://scontent.fbcdn.net/v/a.jpg'',
          Head ''https://scontent.fbcdn.net/v/a.jpg'',
          Print ''[WARN] Requested photo index out of range, defaulting to first image.'',
          Mkdir ''data/images'',
          Get ''https://scontent.fbcdn.net/v/a.jpg'' ''data/images/a.jpg'',
          Print_exn ''[ERROR] Failed to download https://scontent.fbcdn.net/v/a.jpg: ''
            (Raised ''Read timed out'')],
         Inr None)"
    using shape
    by (simp add: download_media_def facebook_branch_def detect parsed truthy_def io_defs)
  have no_videos: "snd (io_filter (is_type env ''video'') [''https://scontent.fbcdn.net/v/a.jpg''])
                     = Inr []"
    by (simp only: videos snd_conv)
  have all_images: "snd (io_filter (is_type env ''image'') [''https://scontent.fbcdn.net/v/a.jpg''])
                     = Inr [''https://scontent.fbcdn.net/v/a.jpg'']"
    by (simp only: images snd_conv)
  note facts = no_videos all_images run
  show ?thesis
    by (intro conjI) (rule facts [unfolded env_def])+
qed

lemma find_hd_filter:
  assumes "find P xs = Some v"
  shows "filter P xs \<noteq> [] \<and> hd (filter P xs) = v"
  using assms by (induction xs) (auto split: if_splits)

lemma facebook_video_run:
  assumes "snd (detect_platform env url) = Inr (Some ''facebook'')"
    and "urlparse env url = Inr parsed"
    and "\<not> video_shaped (lower (path parsed)) url
         \<or> (\<exists>e. snd (download_with_ytdlp env url VIDEO_DIR) = Inl e)"
    and "snd (scrape_media_urls env url) = Inr links"
    and "\<forall>m\<in>set links. \<exists>k. snd (get_media_type_from_url env m) = Inr k"
    and "find (\<lambda>m. snd (get_media_type_from_url env m) = Inr (Some ''video'')) links = Some v"
  shows "\<exists>t. filter is_get t = []
           \<and> download_media env url = io_after t (download_with_requests env v VIDEO_DIR)"
proof -
  define heads where "heads = concat (map (\<lambda>m. fst (get_media_type_from_url env m)) links)"
  define vids where
    "vids = filter (\<lambda>m. snd (get_media_type_from_url env m) = Inr (Some ''video'')) links"
  define imgs where
    "imgs = filter (\<lambda>m. snd (get_media_type_from_url env m) = Inr (Some ''image'')) links"
  have vids: "vids \<noteq> []" "hd vids = v"
    using find_hd_filter [OF assms(6)] by (simp_all add: vids_def)
  then have links: "links \<noteq> []"
    by (auto simp add: vids_def)
  have videos: "io_filter (is_type env ''video'') links = (heads, Inr vids)"
    unfolding heads_def vids_def by (rule io_filter_classified [OF assms(5)])
  have images: "io_filter (is_type env ''image'') links = (heads, Inr imgs)"
    unfolding heads_def imgs_def by (rule io_filter_classified [OF assms(5)])
  have quiet: "filter is_get heads = []"
    unfolding heads_def by (rule no_get_classify_all)
  define t1 where "t1 = fst (scrape_media_urls env url) @ heads @ heads"
  have t1: "filter is_get t1 = []"
    by (simp add: t1_def quiet no_get_scrape)
  have scrape: "facebook_scrape env url = io_after t1 (download_with_requests env v VIDEO_DIR)"
    unfolding facebook_scrape_def
    by (simp add: io_bind_after [OF assms(4)] links videos images vids io_after_after t1_def
        io_bind_after [where m = "(heads, Inr vids)"] io_bind_after [where m = "(heads, Inr imgs)"])
  have fallback: "facebook_fallback env url e =
      io_after ([Print_exn ''[WARN] yt-dlp failed for Facebook: '' e,
                 Print ''[INFO] Attempting scraping fallback...''] @ t1)
        (download_with_requests env v VIDEO_DIR)" for e
    unfolding facebook_fallback_def
    by (simp add: io_bind_after [OF assms(4)] links videos images vids io_after_after t1_def
        io_emit_after io_print_after Let_def
        io_bind_after [where m = "(heads, Inr vids)"] io_bind_after [where m = "(heads, Inr imgs)"])
  have media: "download_media env url = io_after (fst (detect_platform env url)) (facebook_branch env url)"
    unfolding download_media_def
    by (simp add: io_bind_after [OF assms(1)] truthy_def)
  show ?thesis
  proof (cases "video_shaped (lower (path parsed)) url")
    case False
    then have "download_media env url =
        io_after (fst (detect_platform env url) @ t1) (download_with_requests env v VIDEO_DIR)"
      by (simp add: media facebook_branch_def assms(2) io_lift_bind scrape io_after_after)
    moreover have "filter is_get (fst (detect_platform env url) @ t1) = []"
      by (simp add: t1 no_get_detect)
    ultimately show ?thesis by blast
  next
    case True
    with assms(3) obtain e where e: "snd (download_with_ytdlp env url VIDEO_DIR) = Inl e"
      by blast
    define fetch where "fetch = io_bind (download_with_ytdlp env url VIDEO_DIR) (\<lambda>f. io_return (Some f))"
    have raised: "snd fetch = Inl e" "fst fetch = fst (download_with_ytdlp env url VIDEO_DIR)"
      using io_bind_raise [OF e, of "\<lambda>f. io_return (Some f)"] by (simp_all add: fetch_def)
    have "facebook_branch env url = io_after (fst fetch) (facebook_fallback env url e)"
      unfolding facebook_branch_def
      by (simp add: assms(2) io_lift_bind True fetch_def [symmetric] io_try_raise [OF raised(1)])
    then have "download_media env url =
        io_after (fst (detect_platform env url) @ fst fetch
                  @ [Print_exn ''[WARN] yt-dlp failed for Facebook: '' e,
                     Print ''[INFO] Attempting scraping fallback...''] @ t1)
          (download_with_requests env v VIDEO_DIR)"
      by (simp add: media fallback io_after_after)
    moreover have "filter is_get (fst (detect_platform env url) @ fst fetch
                  @ [Print_exn ''[WARN] yt-dlp failed for Facebook: '' e,
                     Print ''[INFO] Attempting scraping fallback...''] @ t1) = []"
      by (simp add: t1 no_get_detect raised(2) no_get_ytdlp)
    ultimately show ?thesis by blast
  qed
qed

text \<open>
  Claim C7, as amended. In both Facebook paths that scrape (the photo and feed path, and
  the fallback of the video path once the video fetcher has raised), when the
  classification of every candidate returns and \<open>v\<close> is the first candidate in scrape
  order that is classified as video, \<^verbatim>\<open>download_media\<close> goes on to the generic download
  of \<open>v\<close> into the video directory, with no GET made before it; when that download
  succeeds, \<^verbatim>\<open>download_media\<close> makes one GET only, of \<open>v\<close>, and returns the file it was
  saved to: no image candidate is downloaded.
\<close>

theorem video_preferred:
  assumes "snd (detect_platform env url) = Inr (Some ''facebook'')"
    and "urlparse env url = Inr parsed"
    and "\<not> video_shaped (lower (path parsed)) url
         \<or> (\<exists>e. snd (download_with_ytdlp env url VIDEO_DIR) = Inl e)"
    and "snd (scrape_media_urls env url) = Inr links"
    and "\<forall>m\<in>set links. \<exists>k. snd (get_media_type_from_url env m) = Inr k"
    and "find (\<lambda>m. snd (get_media_type_from_url env m) = Inr (Some ''video'')) links = Some v"
  shows "(\<exists>t. filter is_get t = []
            \<and> download_media env url = io_after t (download_with_requests env v VIDEO_DIR))
       \<and> (\<forall>f. snd (download_with_requests env v VIDEO_DIR) = Inr (Some f) \<longrightarrow>
              snd (download_media env url) = Inr (Some f)
              \<and> filter is_get (fst (download_media env url)) = [Get v f])"
proof -
  from facebook_video_run [OF assms] obtain t where quiet: "filter is_get t = []"
    and run: "download_media env url = io_after t (download_with_requests env v VIDEO_DIR)"
    by blast
  have "snd (download_media env url) = Inr (Some f)
        \<and> filter is_get (fst (download_media env url)) = [Get v f]"
    if "snd (download_with_requests env v VIDEO_DIR) = Inr (Some f)" for f
    by (rule after_saved [OF run quiet that])
  with quiet run show ?thesis by blast
qed

theorem video_preferred_witness:
  "find (\<lambda>m. snd (get_media_type_from_url
                     (browsing [''https://video.fbcdn.net/v/clip.mp4'']
                        [''https://scontent.fbcdn.net/v/a.jpg'']) m) = Inr (Some ''video''))
      [''https://video.fbcdn.net/v/clip.mp4'', ''https://scontent.fbcdn.net/v/a.jpg'']
     = Some ''https://video.fbcdn.net/v/clip.mp4''
   \<and> \<not> video_shaped (lower ''/page/photo/3'') ''https://www.facebook.com/page/photo/3''
   \<and> (\<exists>t. filter is_get t = []
          \<and> download_media
               (browsing [''https://video.fbcdn.net/v/clip.mp4'']
                  [''https://scontent.fbcdn.net/v/a.jpg''])
               ''https://www.facebook.com/page/photo/3''
             = io_after t
                 (download_with_requests
                    (browsing [''https://video.fbcdn.net/v/clip.mp4'']
                       [''https://scontent.fbcdn.net/v/a.jpg''])
                    ''https://video.fbcdn.net/v/clip.mp4'' VIDEO_DIR))
   \<and> video_shaped (lower ''/watch/'') ''https://www.facebook.com/watch/?v=1''
   \<and> snd (download_with_ytdlp
              (browsing [''https://video.fbcdn.net/v/clip.mp4'']
                 [''https://scontent.fbcdn.net/v/a.jpg''])
              ''https://www.facebook.com/watch/?v=1'' VIDEO_DIR) = Inl (Raised ''no network'')
   \<and> (\<exists>t. filter is_get t = []
          \<and> download_media
               (browsing [''https://video.fbcdn.net/v/clip.mp4'']
                  [''https://scontent.fbcdn.net/v/a.jpg''])
               ''https://www.facebook.com/watch/?v=1''
             = io_after t
                 (download_with_requests
                    (browsing [''https://video.fbcdn.net/v/clip.mp4'']
                       [''https://scontent.fbcdn.net/v/a.jpg''])
                    ''https://video.fbcdn.net/v/clip.mp4'' VIDEO_DIR))
   \<and> snd (download_with_requests
              (browsing [''https://video.fbcdn.net/v/clip.mp4'']
                 [''https://scontent.fbcdn.net/v/a.jpg''])
              ''https://video.fbcdn.net/v/clip.mp4'' VIDEO_DIR)
       = Inr (Some ''data/videos/clip.mp4'')
   \<and> snd (download_media
              (browsing [''https://video.fbcdn.net/v/clip.mp4'']
                 [''https://scontent.fbcdn.net/v/a.jpg''])
              ''https://www.facebook.com/page/photo/3'') = Inr (Some ''data/videos/clip.mp4'')
   \<and> filter is_get
         (fst (download_media
                 (browsing [''https://video.fbcdn.net/v/clip.mp4'']
                    [''https://scontent.fbcdn.net/v/a.jpg''])
                 ''https://www.facebook.com/page/photo/3''))
       = [Get ''https://video.fbcdn.net/v/clip.mp4'' ''data/videos/clip.mp4'']
   \<and> snd (download_media
              (browsing [''https://video.fbcdn.net/v/clip.mp4'']
                 [''https://scontent.fbcdn.net/v/a.jpg''])
              ''https://www.facebook.com/watch/?v=1'') = Inr (Some ''data/videos/clip.mp4'')
   \<and> filter is_get
         (fst (download_media
                 (browsing [''https://video.fbcdn.net/v/clip.mp4'']
                    [''https://scontent.fbcdn.net/v/a.jpg''])
                 ''https://www.facebook.com/watch/?v=1''))
       = [Get ''https://video.fbcdn.net/v/clip.mp4'' ''data/videos/clip.mp4'']"
proof -
  define env where "env = browsing [''https://video.fbcdn.net/v/clip.mp4'']
                            [''https://scontent.fbcdn.net/v/a.jpg'']"
  define links where
    "links = [''https://video.fbcdn.net/v/clip.mp4'', ''https://scontent.fbcdn.net/v/a.jpg'']"
  define photo where "photo = ''https://www.facebook.com/page/photo/3''"
  define watch where "watch = ''https://www.facebook.com/watch/?v=1''"
  have detect: "snd (detect_platform env photo) = Inr (Some ''facebook'')"
    "snd (detect_platform env watch) = Inr (Some ''facebook'')"
    by (simp_all add: env_def photo_def watch_def detect_platform_def browsing_def io_defs env_simps)
  have parsed: "urlparse env photo = Inr \<lparr>netloc = ''www.facebook.com'', path = ''/page/photo/3''\<rparr>"
    "urlparse env watch = Inr \<lparr>netloc = ''www.facebook.com'', path = ''/watch/''\<rparr>"
    by (simp_all add: env_def photo_def watch_def browsing_def env_simps)
  have photo_shape: "\<not> video_shaped (lower ''/page/photo/3'') photo"
    by (simp add: photo_def video_shaped_def env_simps)
  have watch_shape: "video_shaped (lower ''/watch/'') watch"
    by (simp add: watch_def video_shaped_def env_simps)
  have no_fetch: "snd (download_with_ytdlp env watch VIDEO_DIR) = Inl (Raised ''no network'')"
    by (simp add: env_def watch_def download_with_ytdlp_def browsing_def io_defs env_simps
        name_simps Let_def)
  have scraped: "snd (scrape_media_urls env u) = Inr links" for u
    by (simp add: env_def links_def browsing_def offline_def io_defs scrape_simps truthy_def Let_def)
  have kinds: "get_media_type_from_url env ''https://video.fbcdn.net/v/clip.mp4''
                 = ([Head ''https://video.fbcdn.net/v/clip.mp4''], Inr (Some ''video''))"
    "get_media_type_from_url env ''https://scontent.fbcdn.net/v/a.jpg''
                 = ([Head ''https://scontent.fbcdn.net/v/a.jpg''], Inr (Some ''image''))"
    by (simp_all add: env_def browsing_def io_defs env_simps media_simps Let_def)
  have classified: "\<forall>m\<in>set links. \<exists>k. snd (get_media_type_from_url env m) = Inr k"
    by (simp add: links_def kinds)
  have found: "find (\<lambda>m. snd (get_media_type_from_url env m) = Inr (Some ''video'')) links
                 = Some ''https://video.fbcdn.net/v/clip.mp4''"
    by (simp add: links_def kinds)
  have saved: "snd (download_with_requests env ''https://video.fbcdn.net/v/clip.mp4'' VIDEO_DIR)
       = Inr (Some ''data/videos/clip.mp4'')"
    by (simp add: env_def download_with_requests_def browsing_def io_defs env_simps basename_def
        Let_def path_join_def VIDEO_DIR_def)
  have photo_or: "\<not> video_shaped
        (lower (path \<lparr>netloc = ''www.facebook.com'', path = ''/page/photo/3''\<rparr>)) photo
      \<or> (\<exists>e. snd (download_with_ytdlp env photo VIDEO_DIR) = Inl e)"
    by (simp add: photo_shape)
  have watch_or: "\<not> video_shaped
        (lower (path \<lparr>netloc = ''www.facebook.com'', path = ''/watch/''\<rparr>)) watch
      \<or> (\<exists>e. snd (download_with_ytdlp env watch VIDEO_DIR) = Inl e)"
    by (simp add: no_fetch)
  note photo_all = video_preferred [OF detect(1) parsed(1) photo_or scraped classified found]
  note watch_all = video_preferred [OF detect(2) parsed(2) watch_or scraped classified found]
  note on_photo = photo_all [THEN conjunct1]
  note on_watch = watch_all [THEN conjunct1]
  note photo_saved = photo_all [THEN conjunct2, THEN spec, THEN mp, OF saved]
  note watch_saved = watch_all [THEN conjunct2, THEN spec, THEN mp, OF saved]
  note facts = found photo_shape on_photo watch_shape no_fetch on_watch saved
    photo_saved [THEN conjunct1] photo_saved [THEN conjunct2]
    watch_saved [THEN conjunct1] watch_saved [THEN conjunct2]
  show ?thesis
    by (intro conjI) (rule facts [unfolded env_def links_def photo_def watch_def])+
qed

text \<open>
  The claim as the specification states it fails where the classification of another
  candidate raises: \<^verbatim>\<open>get_media_type_from_url\<close> calls \<^verbatim>\<open>urlparse\<close> outside any \<^verbatim>\<open>try\<close>.
  With a video candidate first and a second link that the URL parser refuses,
  \<^verbatim>\<open>download_media\<close> raises before any download.
\<close>

theorem video_preferred_counterexample:
  "snd (scrape_media_urls
          (rejecting ''https://[scontent.fbcdn.net/x''
             (browsing [''https://video.fbcdn.net/v/clip.mp4'']
                [''https://[scontent.fbcdn.net/x'']))
          ''https://www.facebook.com/page/photo/3'')
     = Inr [''https://video.fbcdn.net/v/clip.mp4'', ''https://[scontent.fbcdn.net/x'']
   \<and> snd (get_media_type_from_url
              (rejecting ''https://[scontent.fbcdn.net/x''
                 (browsing [''https://video.fbcdn.net/v/clip.mp4'']
                    [''https://[scontent.fbcdn.net/x'']))
              ''https://video.fbcdn.net/v/clip.mp4'') = Inr (Some ''video'')
   \<and> download_media
         (rejecting ''https://[scontent.fbcdn.net/x''
            (browsing [''https://video.fbcdn.net/v/clip.mp4'']
               [''https://[scontent.fbcdn.net/x'']))
         ''https://www.facebook.com/page/photo/3''
       = ([Print ''[DEBUG] Detected platform by domain: Facebook'',
           Launch_scrape ''https://www.facebook.com/page/photo/3'',
           Print_links [''https://video.fbcdn.net/v/clip.mp4'', ''https://[scontent.fbcdn.net/x''],
           Head ''https://video.fbcdn.net/v/clip.mp4'',
           Head ''https://[scontent.fbcdn.net/x''],
          Inl (Raised ''Invalid IPv6 URL''))"
proof -
  define env where "env = rejecting ''https://[scontent.fbcdn.net/x''
      (browsing [''https://video.fbcdn.net/v/clip.mp4''] [''https://[scontent.fbcdn.net/x''])"
  have detect: "detect_platform env ''https://www.facebook.com/page/photo/3''
                  = ([Print ''[DEBUG] Detected platform by domain: Facebook''], Inr (Some ''facebook''))"
    by (simp add: env_def rejecting_def browsing_def detect_platform_def io_defs env_simps)
  have parsed: "urlparse env ''https://www.facebook.com/page/photo/3''
                  = Inr \<lparr>netloc = ''www.facebook.com'', path = ''/page/photo/3''\<rparr>"
    by (simp add: env_def rejecting_def browsing_def env_simps)
  have shape: "\<not> video_shaped (lower ''/page/photo/3'') ''https://www.facebook.com/page/photo/3''"
    by (simp add: video_shaped_def env_simps)
  have scraped: "scrape_media_urls env ''https://www.facebook.com/page/photo/3''
      = ([Launch_scrape ''https://www.facebook.com/page/photo/3'',
          Print_links [''https://video.fbcdn.net/v/clip.mp4'', ''https://[scontent.fbcdn.net/x'']],
         Inr [''https://video.fbcdn.net/v/clip.mp4'', ''https://[scontent.fbcdn.net/x''])"
    by (simp add: env_def rejecting_def browsing_def offline_def io_defs scrape_simps truthy_def
        Let_def)
  have clip: "get_media_type_from_url env ''https://video.fbcdn.net/v/clip.mp4''
                = ([Head ''https://video.fbcdn.net/v/clip.mp4''], Inr (Some ''video''))"
    by (simp add: env_def rejecting_def browsing_def io_defs env_simps media_simps Let_def)
  have bad: "get_media_type_from_url env ''https://[scontent.fbcdn.net/x''
                = ([Head ''https://[scontent.fbcdn.net/x''], Inl (Raised ''Invalid IPv6 URL''))"
    by (simp add: env_def rejecting_def browsing_def offline_def io_defs media_simps Let_def)
  have videos: "io_filter (is_type env ''video'')
                  [''https://video.fbcdn.net/v/clip.mp4'', ''https://[scontent.fbcdn.net/x'']
      = ([Head ''https://video.fbcdn.net/v/clip.mp4'', Head ''https://[scontent.fbcdn.net/x''],
         Inl (Raised ''Invalid IPv6 URL''))"
    by (simp add: is_type_def clip bad io_defs)
  have "facebook_scrape env ''https://www.facebook.com/page/photo/3''
      = ([Launch_scrape ''https://www.facebook.com/page/photo/3'',
          Print_links [''https://video.fbcdn.net/v/clip.mp4'', ''https://[scontent.fbcdn.net/x''],
          Head ''https://video.fbcdn.net/v/clip.mp4'',
          Head ''https://[scontent.fbcdn.net/x''],
         Inl (Raised ''Invalid IPv6 URL''))"
    by (simp add: facebook_scrape_def scraped videos io_defs del: io_filter.simps)
  then have run: "download_media env ''https://www.facebook.com/page/photo/3''
      = ([Print ''[DEBUG] Detected platform by domain: Facebook'',
          Launch_scrape ''https://www.facebook.com/page/photo/3'',
          Print_links [''https://video.fbcdn.net/v/clip.mp4'', ''https://[scontent.fbcdn.net/x''],
          Head ''https://video.fbcdn.net/v/clip.mp4'',
          Head ''https://[scontent.fbcdn.net/x''],
         Inl (Raised ''Invalid IPv6 URL''))"
    using shape
    by (simp add: download_media_def facebook_branch_def detect parsed truthy_def io_defs)
  have links: "snd (scrape_media_urls env ''https://www.facebook.com/page/photo/3'')
     = Inr [''https://video.fbcdn.net/v/clip.mp4'', ''https://[scontent.fbcdn.net/x'']"
    by (simp add: scraped)
  have video: "snd (get_media_type_from_url env ''https://video.fbcdn.net/v/clip.mp4'')
                 = Inr (Some ''video'')"
    by (simp add: clip)
  note facts = links video run
  show ?thesis
    by (intro conjI) (rule facts [unfolded env_def])+
qed

end
